theory Spec2Isabelle
  imports Complex_Main "HOL-Library.Char_ord" "HOL-Library.List_Lexorder"
    "HOL-Library.Product_Lexorder" "HOL-Library.AList"
begin

text \<open>
  The ingestion pipeline of \<^verbatim>\<open>services/firms_nominatim_service.py\<close>: the feed URL
  builder, the record normalizer, the memoized feed combiner and the geospatial filter.
  The functions keep their Python names. A pandas data frame is a list of column labels
  and a list of rows; an exception is a value of type \<open>error\<close>; the network, the
  current date and the geometry library are arguments of the functions that use them.
\<close>

section \<open>Exceptions\<close>

text \<open>
  Every failure of the service is a Python exception. All but one of them are
  \<^verbatim>\<open>ValueError\<close>s that differ in their message; the constructors below name the
  raise sites (\<open>DataProcessingError\<close> and \<open>ReadProcessFailed\<close> wrap their cause, as
  \<^verbatim>\<open>raise ... from e\<close> does). \<open>IntCastingNaN\<close> is what \<^verbatim>\<open>astype(int)\<close> raises on a
  missing rank. \<open>KeyError\<close> is the one pandas raises from \<^verbatim>\<open>DataFrame.drop\<close> when a
  label is absent; the combiner does not catch it.
\<close>

datatype error =
    KeyRequired
  | InvalidKey
  | MissingColumns "string list"
  | DatetimeConversion
  | IntCastingNaN
  | DataProcessingError error
  | ReadProcessFailed string error
  | NotThreeUrls
  | MissingCombinedColumns "string list"
  | KeyError "string list"
  | NoGeometry
  | EmptyFrame
  | CrsTransformError
  | FilterError
  | Transport string

fun is_ValueError :: "error \<Rightarrow> bool" where
  "is_ValueError (KeyError _) = False"
| "is_ValueError _ = True"

section \<open>Feed URL builder\<close>

definition FIRMS_API_URL :: string where
  "FIRMS_API_URL = ''https://firms.modaps.eosdis.nasa.gov''"

text \<open>
  \<^verbatim>\<open>str.lower\<close> on the ASCII range. A character outside ASCII is left as it is:
  no Unicode character lowercases to a hexadecimal digit unless it is one of
  \<open>0-9a-fA-F\<close>, so such a key is rejected by the source and by the model alike.
\<close>

definition lower_char :: "char \<Rightarrow> char" where
  "lower_char c =
     (let n = (of_char c :: nat) in if 65 \<le> n \<and> n \<le> 90 then char_of (n + 32) else c)"

definition lower :: "string \<Rightarrow> string" where
  "lower s = map lower_char s"

definition feed_url :: "string \<Rightarrow> string \<Rightarrow> string" where
  "feed_url firms_key product =
     FIRMS_API_URL @ ''/api/area/csv/'' @ firms_key @ ''/'' @ product @ ''/world/9''"

definition create_firms_csv_urls :: "string \<Rightarrow> error + (string \<times> string \<times> string)" where
  "create_firms_csv_urls firms_key =
     (if firms_key = [] then Inl KeyRequired
      else if \<not> list_all (\<lambda>c. c \<in> set ''0123456789abcdef'') (lower firms_key)
              \<or> length firms_key \<noteq> 32
        then Inl InvalidKey
      else Inr (feed_url firms_key ''MODIS_NRT'',
                feed_url firms_key ''VIIRS_NOAA20_NRT'',
                feed_url firms_key ''VIIRS_SNPP_NRT''))"

text \<open>The credential invariant as the specification words it, and as the code checks it.\<close>

definition lowercase_hex32 :: "string \<Rightarrow> bool" where
  "lowercase_hex32 s \<longleftrightarrow> length s = 32 \<and> list_all (\<lambda>c. c \<in> set ''0123456789abcdef'') s"

definition anycase_hex32 :: "string \<Rightarrow> bool" where
  "anycase_hex32 s \<longleftrightarrow>
     length s = 32 \<and> list_all (\<lambda>c. c \<in> set ''0123456789abcdefABCDEF'') s"

section \<open>Cells, rows and frames\<close>

datatype timestamp =
  Timestamp (year: nat) (month: nat) (day: nat) (hour: nat) (minute: nat) (second: nat)

datatype geometry =
    Point "real option" "real option"
  | Polygon "(real \<times> real) list"
  | MultiPolygon "(real \<times> real) list list"

datatype cell = NaN | Num real | Str string | Flag bool | Stamp timestamp | Geom geometry

type_synonym row = "(string \<times> cell) list"

record frame =
  columns :: "string list"
  rows :: "row list"

definition cell_at :: "row \<Rightarrow> string \<Rightarrow> cell" where
  "cell_at r c = (case map_of r c of Some v \<Rightarrow> v | None \<Rightarrow> NaN)"

definition column :: "frame \<Rightarrow> string \<Rightarrow> cell list" where
  "column df c = map (\<lambda>r. cell_at r c) (rows df)"

definition assign :: "string \<Rightarrow> (row \<Rightarrow> cell) \<Rightarrow> frame \<Rightarrow> frame" where
  "assign c f df =
     \<lparr>columns = (if c \<in> set (columns df) then columns df else columns df @ [c]),
      rows = map (\<lambda>r. AList.update c (f r) r) (rows df)\<rparr>"

definition rename_label :: "(string \<times> string) list \<Rightarrow> string \<Rightarrow> string" where
  "rename_label m c = (case map_of m c of Some c' \<Rightarrow> c' | None \<Rightarrow> c)"

definition rename :: "(string \<times> string) list \<Rightarrow> frame \<Rightarrow> frame" where
  "rename m df =
     \<lparr>columns = map (rename_label m) (columns df),
      rows = map (map (\<lambda>(k, v). (rename_label m k, v))) (rows df)\<rparr>"

section \<open>strptime\<close>

datatype cls = Digit | Range char char | Lit char

definition is_digit :: "char \<Rightarrow> bool" where
  "is_digit c \<longleftrightarrow> 48 \<le> (of_char c :: nat) \<and> (of_char c :: nat) \<le> 57"

definition is_space :: "char \<Rightarrow> bool" where
  "is_space c \<longleftrightarrow> (let n = (of_char c :: nat) in (9 \<le> n \<and> n \<le> 13) \<or> (28 \<le> n \<and> n \<le> 32))"

fun cls_ok :: "cls \<Rightarrow> char \<Rightarrow> bool" where
  "cls_ok Digit c = is_digit c"
| "cls_ok (Range a b) c = ((of_char a :: nat) \<le> of_char c \<and> (of_char c :: nat) \<le> of_char b)"
| "cls_ok (Lit a) c = (c = a)"

fun match_alt :: "cls list \<Rightarrow> string \<Rightarrow> string option" where
  "match_alt [] s = Some s"
| "match_alt (p # ps) [] = None"
| "match_alt (p # ps) (c # cs) = (if cls_ok p c then match_alt ps cs else None)"

datatype tok = Group "cls list list" | Literal char | Spaces

fun match_toks :: "tok list \<Rightarrow> string \<Rightarrow> (string list \<times> string) list" where
  "match_toks [] s = [([], s)]"
| "match_toks (Group alts # ts) s =
     concat (map (\<lambda>a. case match_alt a s of
                          None \<Rightarrow> []
                        | Some rest \<Rightarrow>
                            map (\<lambda>(gs, r). (take (length s - length rest) s # gs, r))
                              (match_toks ts rest)) alts)"
| "match_toks (Literal a # ts) s =
     (case s of [] \<Rightarrow> [] | c # cs \<Rightarrow> if c = a then match_toks ts cs else [])"
| "match_toks (Spaces # ts) s =
     concat (map (\<lambda>k. match_toks ts (drop k s))
               (rev [1 ..< Suc (length (takeWhile is_space s))]))"

definition re_Y :: "cls list list" where "re_Y = [[Digit, Digit, Digit, Digit]]"
definition re_m :: "cls list list" where
  "re_m = [[Lit CHR ''1'', Range CHR ''0'' CHR ''2''], [Lit CHR ''0'', Range CHR ''1'' CHR ''9''],
           [Range CHR ''1'' CHR ''9'']]"
definition re_d :: "cls list list" where
  "re_d = [[Lit CHR ''3'', Range CHR ''0'' CHR ''1''], [Range CHR ''1'' CHR ''2'', Digit],
           [Lit CHR ''0'', Range CHR ''1'' CHR ''9''], [Range CHR ''1'' CHR ''9''],
           [Lit CHR '' '', Range CHR ''1'' CHR ''9'']]"
definition re_H :: "cls list list" where
  "re_H = [[Lit CHR ''2'', Range CHR ''0'' CHR ''3''], [Range CHR ''0'' CHR ''1'', Digit], [Digit]]"
definition re_M :: "cls list list" where
  "re_M = [[Range CHR ''0'' CHR ''5'', Digit], [Digit]]"
definition re_S :: "cls list list" where
  "re_S = [[Lit CHR ''6'', Range CHR ''0'' CHR ''1''], [Range CHR ''0'' CHR ''5'', Digit], [Digit]]"

definition acq_format :: "tok list" where
  "acq_format = [Group re_Y, Literal CHR ''-'', Group re_m, Literal CHR ''-'', Group re_d,
                 Spaces, Group re_H, Group re_M, Group re_S]"

definition int_of_str :: "string \<Rightarrow> nat" where
  "int_of_str s = foldl (\<lambda>n c. 10 * n + (of_char c - 48)) 0 (filter is_digit s)"

definition is_leap :: "nat \<Rightarrow> bool" where
  "is_leap y \<longleftrightarrow> y mod 4 = 0 \<and> (y mod 100 \<noteq> 0 \<or> y mod 400 = 0)"

definition days_in_month :: "nat \<Rightarrow> nat \<Rightarrow> nat" where
  "days_in_month y m =
     (if m = 2 then (if is_leap y then 29 else 28)
      else if m \<in> {4, 6, 9, 11} then 30 else 31)"

definition strptime :: "string \<Rightarrow> timestamp option" where
  "strptime s =
     (case match_toks acq_format s of
        [] \<Rightarrow> None
      | (gs, rest) # _ \<Rightarrow>
          if rest \<noteq> [] then None
          else (case map int_of_str gs of
                  [y, m, d, H, M, S] \<Rightarrow>
                    if 1 \<le> y \<and> 1 \<le> m \<and> m \<le> 12 \<and> 1 \<le> d \<and> d \<le> days_in_month y m \<and> S \<le> 59
                    then Some (Timestamp y m d H M S) else None
                | _ \<Rightarrow> None))"

section \<open>Record normalizer\<close>

datatype dtype = NumericDtype | StringDtype | OtherDtype

definition required_columns :: "string list" where
  "required_columns = [''confidence'', ''acq_date'', ''acq_time'', ''satellite'']"

definition ge70 :: "cell \<Rightarrow> bool" where
  "ge70 c = (case c of Num x \<Rightarrow> 70 \<le> x | _ \<Rightarrow> False)"

definition isin :: "cell \<Rightarrow> string list \<Rightarrow> bool" where
  "isin c vs = (case c of Str s \<Rightarrow> s \<in> set vs | _ \<Rightarrow> False)"

definition set_where :: "(row \<Rightarrow> bool) \<Rightarrow> string \<Rightarrow> cell \<Rightarrow> frame \<Rightarrow> frame" where
  "set_where sel c v df = assign c (\<lambda>r. if sel r then v else cell_at r c) df"

definition mark_confidence :: "dtype \<Rightarrow> frame \<Rightarrow> frame" where
  "mark_confidence dt data =
     (if dt = NumericDtype then
        rename [(''brightness'', ''brightness_a''), (''bright_t31'', ''brightness_b'')]
          (set_where (\<lambda>r. ge70 (cell_at r ''confidence'')) ''high_confidence'' (Flag True) data)
      else if dt = StringDtype then
        rename [(''bright_ti4'', ''brightness_a''), (''bright_ti5'', ''brightness_b'')]
          (set_where (\<lambda>r. isin (cell_at r ''confidence'') [''nominal'', ''high''])
             ''high_confidence'' (Flag True) data)
      else data)"

definition str_pad_left :: "nat \<Rightarrow> char \<Rightarrow> cell \<Rightarrow> cell" where
  "str_pad_left w fillchar c =
     (case c of Str s \<Rightarrow> Str (replicate (w - length s) fillchar @ s) | _ \<Rightarrow> NaN)"

definition zfill :: "nat \<Rightarrow> string \<Rightarrow> string" where
  "zfill w s =
     (if w \<le> length s then s
      else case s of
             [] \<Rightarrow> replicate w CHR ''0''
           | c # cs \<Rightarrow>
               if c = CHR ''+'' \<or> c = CHR ''-''
               then c # replicate (w - length s) CHR ''0'' @ cs
               else replicate (w - length s) CHR ''0'' @ s)"

definition time_text :: "cell \<Rightarrow> string" where
  "time_text c = zfill 4 (case c of Str s \<Rightarrow> s | _ \<Rightarrow> ''nan'')"

definition date_time_text :: "row \<Rightarrow> cell" where
  "date_time_text r =
     (case cell_at r ''acq_date'' of
        Str d \<Rightarrow> Str (d @ '' '' @ time_text (cell_at r ''acq_time''))
      | _ \<Rightarrow> NaN)"

definition to_datetime :: "cell \<Rightarrow> cell" where
  "to_datetime c =
     (case c of
        Str s \<Rightarrow> (case strptime s of Some t \<Rightarrow> Stamp t | None \<Rightarrow> NaN)
      | _ \<Rightarrow> NaN)"

definition series_max :: "cell list \<Rightarrow> cell" where
  "series_max cs =
     (case [s. Str s \<leftarrow> cs] of [] \<Rightarrow> NaN | s # ss \<Rightarrow> Str (fold max ss s))"

fun py_eq :: "cell \<Rightarrow> cell \<Rightarrow> bool" where
  "py_eq (Num a) (Num b) = (a = b)"
| "py_eq (Num a) (Flag b) = (a = (if b then 1 else 0))"
| "py_eq (Flag a) (Num b) = ((if a then 1 else 0) = b)"
| "py_eq (Flag a) (Flag b) = (a = b)"
| "py_eq (Str a) (Str b) = (a = b)"
| "py_eq (Stamp a) (Stamp b) = (a = b)"
| "py_eq (Geom a) (Geom b) = (a = b)"
| "py_eq _ _ = False"

definition rank_dense_desc :: "cell list \<Rightarrow> cell \<Rightarrow> cell" where
  "rank_dense_desc col c =
     (case c of
        Str s \<Rightarrow> Num (real (Suc (length (remdups [t. Str t \<leftarrow> col, s < t]))))
      | _ \<Rightarrow> NaN)"

definition minus_one :: "cell \<Rightarrow> cell" where
  "minus_one c = (case c of Num x \<Rightarrow> Num (x - 1) | _ \<Rightarrow> NaN)"

definition process_csv_data ::
  "(cell \<Rightarrow> string) \<Rightarrow> timestamp \<Rightarrow> dtype \<Rightarrow> frame \<Rightarrow> error + frame" where
  "process_csv_data str_of today confidence_dtype csv =
     (let data = assign ''high_confidence'' (\<lambda>r. Flag False) csv;
          missing_columns = filter (\<lambda>col. col \<notin> set (columns data)) required_columns
      in if missing_columns \<noteq> [] then Inl (DataProcessingError (MissingColumns missing_columns))
      else
        let data = mark_confidence confidence_dtype data;
            data = assign ''acq_time''
                     (\<lambda>r. str_pad_left 4 CHR ''0'' (cell_at r ''acq_time'')) data;
            data = assign ''acq_datetime'' (\<lambda>r. to_datetime (date_time_text r)) data
        in if list_ex (\<lambda>r. cell_at r ''acq_datetime'' = NaN) (rows data)
           then Inl (DataProcessingError DatetimeConversion)
        else
          let acq_date = column data ''acq_date'';
              rank = (\<lambda>r. rank_dense_desc acq_date (cell_at r ''acq_date''))
          in if list_ex (\<lambda>r. rank r = NaN) (rows data)
             then Inl (DataProcessingError IntCastingNaN)
          else
            let data =
                  (if py_eq (series_max acq_date) (Stamp today)
                   then assign ''days_ago'' (\<lambda>r. minus_one (rank r)) data
                   else assign ''days_ago'' rank data);
                data = assign ''satellite'' (\<lambda>r. Str (str_of (cell_at r ''satellite''))) data;
                data = assign ''confidence'' (\<lambda>r. Str (str_of (cell_at r ''confidence''))) data
            in Inr data)"

subsection \<open>The normalizer, row by row\<close>

text \<open>
  The source works on whole columns. The functions below say what the same steps do to
  one row of the parsed file; \<open>process_csv_data_result\<close> proves that
  \<open>process_csv_data\<close> computes exactly this. They are used to state the properties.
\<close>

definition modis_names :: "(string \<times> string) list" where
  "modis_names = [(''brightness'', ''brightness_a''), (''bright_t31'', ''brightness_b'')]"

definition viirs_names :: "(string \<times> string) list" where
  "viirs_names = [(''bright_ti4'', ''brightness_a''), (''bright_ti5'', ''brightness_b'')]"

definition high_confidence_of :: "dtype \<Rightarrow> row \<Rightarrow> bool" where
  "high_confidence_of dt r =
     (if dt = NumericDtype then ge70 (cell_at r ''confidence'')
      else if dt = StringDtype then isin (cell_at r ''confidence'') [''nominal'', ''high'']
      else False)"

definition acq_datetime_of :: "row \<Rightarrow> cell" where
  "acq_datetime_of r =
     to_datetime
       (date_time_text
          (AList.update ''acq_time'' (str_pad_left 4 CHR ''0'' (cell_at r ''acq_time'')) r))"

definition relabel :: "dtype \<Rightarrow> row \<Rightarrow> row" where
  "relabel dt r =
     (if dt = NumericDtype then map (\<lambda>(k, v). (rename_label modis_names k, v)) r
      else if dt = StringDtype then map (\<lambda>(k, v). (rename_label viirs_names k, v)) r
      else r)"

definition normalize_row :: "(cell \<Rightarrow> string) \<Rightarrow> dtype \<Rightarrow> cell list \<Rightarrow> row \<Rightarrow> row" where
  "normalize_row str_of dt dates r =
     (let r1 = relabel dt (AList.update ''high_confidence'' (Flag (high_confidence_of dt r)) r);
          r2 = AList.update ''acq_time'' (str_pad_left 4 CHR ''0'' (cell_at r ''acq_time'')) r1;
          r3 = AList.update ''acq_datetime'' (acq_datetime_of r) r2;
          r4 = AList.update ''days_ago'' (rank_dense_desc dates (cell_at r ''acq_date'')) r3;
          r5 = AList.update ''satellite'' (Str (str_of (cell_at r ''satellite''))) r4
      in AList.update ''confidence'' (Str (str_of (cell_at r ''confidence''))) r5)"

definition add_label :: "string \<Rightarrow> string list \<Rightarrow> string list" where
  "add_label c cs = (if c \<in> set cs then cs else cs @ [c])"

definition relabel_columns :: "dtype \<Rightarrow> string list \<Rightarrow> string list" where
  "relabel_columns dt cs =
     (if dt = NumericDtype then map (rename_label modis_names) cs
      else if dt = StringDtype then map (rename_label viirs_names) cs
      else cs)"

definition normalize_columns :: "dtype \<Rightarrow> string list \<Rightarrow> string list" where
  "normalize_columns dt cs =
     add_label ''days_ago'' (add_label ''acq_datetime''
       (relabel_columns dt (add_label ''high_confidence'' cs)))"

definition has_label :: "frame \<Rightarrow> string \<Rightarrow> bool" where
  "has_label df c \<longleftrightarrow> c \<in> set (columns df) \<or> (\<exists>r\<in>set (rows df). c \<in> fst ` set r)"

section \<open>Feed combiner\<close>

type_synonym csv = "dtype \<times> frame"
type_synonym net = "string list \<Rightarrow> string \<Rightarrow> error + csv"

definition read_firm_csv ::
  "(cell \<Rightarrow> string) \<Rightarrow> timestamp \<Rightarrow> net \<Rightarrow> string \<Rightarrow> string list
     \<Rightarrow> (error + frame) \<times> string list" where
  "read_firm_csv str_of today fetch url hist =
     (case fetch hist url of
        Inl e \<Rightarrow> (Inl (ReadProcessFailed url e), hist @ [url])
      | Inr (dt, content) \<Rightarrow>
          (case process_csv_data str_of today dt content of
             Inl e \<Rightarrow> (Inl (ReadProcessFailed url e), hist @ [url])
           | Inr df \<Rightarrow> (Inr df, hist @ [url])))"

fun read_all ::
  "(cell \<Rightarrow> string) \<Rightarrow> timestamp \<Rightarrow> net \<Rightarrow> string list \<Rightarrow> string list
     \<Rightarrow> (error + frame list) \<times> string list" where
  "read_all str_of today fetch [] hist = (Inr [], hist)"
| "read_all str_of today fetch (url # urls) hist =
     (case read_firm_csv str_of today fetch url hist of
        (Inl e, hist') \<Rightarrow> (Inl e, hist')
      | (Inr df, hist') \<Rightarrow>
          (case read_all str_of today fetch urls hist' of
             (Inl e, hist'') \<Rightarrow> (Inl e, hist'')
           | (Inr dfs, hist'') \<Rightarrow> (Inr (df # dfs), hist'')))"

definition concat_frames :: "frame list \<Rightarrow> frame" where
  "concat_frames dfs =
     \<lparr>columns = rev (remdups (rev (concat (map columns dfs)))),
      rows = concat (map rows dfs)\<rparr>"

definition combined_required_columns :: "string list" where
  "combined_required_columns =
     [''high_confidence'', ''latitude'', ''longitude'', ''acq_datetime'', ''confidence'', ''version'']"

definition unique_columns :: "string list" where
  "unique_columns = [''latitude'', ''longitude'', ''acq_datetime'', ''confidence'', ''version'']"

definition drop_columns :: "string list" where
  "drop_columns =
     [''scan'', ''track'', ''acq_date'', ''acq_time'', ''brightness_a'', ''brightness_b'', ''daynight'']"

definition subset_key :: "string list \<Rightarrow> row \<Rightarrow> cell list" where
  "subset_key cols r = map (cell_at r) cols"

fun drop_duplicates_keep_last :: "string list \<Rightarrow> row list \<Rightarrow> row list" where
  "drop_duplicates_keep_last cols [] = []"
| "drop_duplicates_keep_last cols (r # rs) =
     (if subset_key cols r \<in> set (map (subset_key cols) rs)
      then drop_duplicates_keep_last cols rs
      else r # drop_duplicates_keep_last cols rs)"

fun stamp_key :: "cell \<Rightarrow> nat \<times> nat \<times> nat \<times> nat \<times> nat \<times> nat \<times> nat" where
  "stamp_key (Stamp (Timestamp y m d H M S)) = (0, y, m, d, H, M, S)"
| "stamp_key _ = (1, 0, 0, 0, 0, 0, 0)"

definition sort_values :: "string \<Rightarrow> row list \<Rightarrow> row list" where
  "sort_values c rs = sort_key (\<lambda>r. stamp_key (cell_at r c)) rs"

definition drop_labels :: "string list \<Rightarrow> frame \<Rightarrow> error + frame" where
  "drop_labels labels df =
     (let missing = filter (\<lambda>c. c \<notin> set (columns df)) labels
      in if missing \<noteq> [] then Inl (KeyError missing)
         else Inr \<lparr>columns = filter (\<lambda>c. c \<notin> set labels) (columns df),
                   rows = map (filter (\<lambda>(k, v). k \<notin> set labels)) (rows df)\<rparr>)"

record geoframe = frame +
  crs :: "string option"

definition coord :: "cell \<Rightarrow> real option" where
  "coord c = (case c of Num x \<Rightarrow> Some x | _ \<Rightarrow> None)"

definition points_from_xy :: "row \<Rightarrow> cell" where
  "points_from_xy r = Geom (Point (coord (cell_at r ''longitude'')) (coord (cell_at r ''latitude'')))"

fun show_nat :: "nat \<Rightarrow> string" where
  "show_nat n = (if n < 10 then [char_of (48 + n)] else show_nat (n div 10) @ [char_of (48 + n mod 10)])"

definition two_digits :: "nat \<Rightarrow> string" where
  "two_digits n = [char_of (48 + n div 10 mod 10), char_of (48 + n mod 10)]"

fun strftime :: "timestamp \<Rightarrow> string" where
  "strftime (Timestamp y m d H M S) =
     show_nat y @ ''-'' @ two_digits m @ ''-'' @ two_digits d @ ''_'' @
     two_digits H @ '':'' @ two_digits M @ '':'' @ two_digits S"

definition dt_strftime :: "cell \<Rightarrow> cell" where
  "dt_strftime c = (case c of Stamp t \<Rightarrow> Str (strftime t) | _ \<Rightarrow> NaN)"

definition combine_frames :: "frame list \<Rightarrow> error + geoframe" where
  "combine_frames dfs =
     (let combined_df = concat_frames dfs;
          missing_columns =
            filter (\<lambda>col. col \<notin> set (columns combined_df)) combined_required_columns
      in if missing_columns \<noteq> [] then Inl (MissingCombinedColumns missing_columns)
      else
        let high = filter (\<lambda>r. cell_at r ''high_confidence'' = Flag True) (rows combined_df);
            deduplicated = drop_duplicates_keep_last unique_columns high;
            sorted_rows = sort_values ''acq_datetime'' deduplicated
        in case drop_labels drop_columns \<lparr>columns = columns combined_df, rows = sorted_rows\<rparr> of
             Inl e \<Rightarrow> Inl e
           | Inr combined_df_export \<Rightarrow>
               let gdf = assign ''geometry'' points_from_xy combined_df_export;
                   gdf = assign ''acq_datetime''
                           (\<lambda>r. dt_strftime (cell_at r ''acq_datetime'')) gdf
               in Inr \<lparr>columns = columns gdf, rows = rows gdf, crs = Some ''EPSG:4326''\<rparr>)"

definition convert_firms_urls_to_combined_gdf ::
  "(cell \<Rightarrow> string) \<Rightarrow> timestamp \<Rightarrow> net \<Rightarrow> string list \<Rightarrow> string list
     \<Rightarrow> (error + geoframe) \<times> string list" where
  "convert_firms_urls_to_combined_gdf str_of today fetch firms_urls hist =
     (if length firms_urls \<noteq> 3 then (Inl NotThreeUrls, hist)
      else case read_all str_of today fetch firms_urls hist of
             (Inl e, hist') \<Rightarrow> (Inl e, hist')
           | (Inr dfs, hist') \<Rightarrow> (combine_frames dfs, hist'))"

section \<open>Memoization\<close>

definition lru_cache ::
  "nat \<Rightarrow> ('k \<Rightarrow> 'w \<Rightarrow> (error + 'v) \<times> 'w) \<Rightarrow> 'k \<Rightarrow> ('k \<times> 'v) list \<times> 'w
     \<Rightarrow> (error + 'v) \<times> ('k \<times> 'v) list \<times> 'w" where
  "lru_cache maxsize f k st =
     (case st of (cache, w) \<Rightarrow>
        (case map_of cache k of
           Some v \<Rightarrow> (Inr v, (k, v) # filter (\<lambda>(k', v'). k' \<noteq> k) cache, w)
         | None \<Rightarrow>
             (case f k w of
                (Inl e, w') \<Rightarrow> (Inl e, cache, w')
              | (Inr v, w') \<Rightarrow>
                  (Inr v, (k, v) # (if maxsize \<le> length cache then butlast cache else cache), w'))))"

definition cached_convert_firms_urls_to_combined_gdf ::
  "(cell \<Rightarrow> string) \<Rightarrow> timestamp \<Rightarrow> net \<Rightarrow> string list
     \<Rightarrow> (string list \<times> geoframe) list \<times> string list
     \<Rightarrow> (error + geoframe) \<times> (string list \<times> geoframe) list \<times> string list" where
  "cached_convert_firms_urls_to_combined_gdf str_of today fetch =
     lru_cache 128 (convert_firms_urls_to_combined_gdf str_of today fetch)"

section \<open>Geospatial filter\<close>

definition is_empty :: "geoframe \<Rightarrow> bool" where
  "is_empty g \<longleftrightarrow> rows g = [] \<or> columns g = []"

definition geometry_of :: "geoframe \<Rightarrow> cell list" where
  "geometry_of g = map (\<lambda>r. cell_at r ''geometry'') (rows g)"

fun sequence_option :: "'a option list \<Rightarrow> 'a list option" where
  "sequence_option [] = Some []"
| "sequence_option (x # xs) =
     (case x of None \<Rightarrow> None
      | Some y \<Rightarrow> (case sequence_option xs of None \<Rightarrow> None | Some ys \<Rightarrow> Some (y # ys)))"

definition transform_row ::
  "(geometry \<Rightarrow> geometry option) \<Rightarrow> row \<Rightarrow> row option" where
  "transform_row tr r =
     (case cell_at r ''geometry'' of
        Geom g \<Rightarrow> (case tr g of None \<Rightarrow> None
                   | Some g' \<Rightarrow> Some (AList.update ''geometry'' (Geom g') r))
      | _ \<Rightarrow> Some r)"

definition to_crs ::
  "(string \<Rightarrow> string \<Rightarrow> geometry \<Rightarrow> geometry option) \<Rightarrow> geoframe \<Rightarrow> string option
     \<Rightarrow> geoframe option" where
  "to_crs transform g target =
     (case (crs g, target) of
        (Some src, Some dst) \<Rightarrow>
          (case sequence_option (map (transform_row (transform src dst)) (rows g)) of
             None \<Rightarrow> None
           | Some rs \<Rightarrow> Some \<lparr>columns = columns g, rows = rs, crs = Some dst\<rparr>)
      | _ \<Rightarrow> None)"

fun any_within :: "(cell \<Rightarrow> cell \<Rightarrow> bool option) \<Rightarrow> cell \<Rightarrow> cell list \<Rightarrow> bool option" where
  "any_within point_within point [] = Some False"
| "any_within point_within point (polygon # polygons) =
     (case point_within point polygon of
        None \<Rightarrow> None
      | Some True \<Rightarrow> Some True
      | Some False \<Rightarrow> any_within point_within point polygons)"

definition filter_firms_points_within_country_area ::
  "(string \<Rightarrow> string \<Rightarrow> geometry \<Rightarrow> geometry option) \<Rightarrow> (cell \<Rightarrow> cell \<Rightarrow> bool option)
     \<Rightarrow> geoframe \<Rightarrow> geoframe \<Rightarrow> error + geoframe" where
  "filter_firms_points_within_country_area transform point_within firms_world_gdf country_gdf =
     (if ''geometry'' \<notin> set (columns firms_world_gdf) \<or> ''geometry'' \<notin> set (columns country_gdf)
      then Inl NoGeometry
      else if is_empty firms_world_gdf \<or> is_empty country_gdf then Inl EmptyFrame
      else
        case (if crs firms_world_gdf \<noteq> crs country_gdf
              then to_crs transform firms_world_gdf (crs country_gdf)
              else Some firms_world_gdf) of
          None \<Rightarrow> Inl CrsTransformError
        | Some firms \<Rightarrow>
            (case sequence_option
                    (map (\<lambda>point. any_within point_within point (geometry_of country_gdf))
                       (geometry_of firms)) of
               None \<Rightarrow> Inl FilterError
             | Some within_area \<Rightarrow>
                 Inr \<lparr>columns = columns firms,
                      rows = map fst (filter snd (zip (rows firms) within_area)),
                      crs = crs firms\<rparr>))"

section \<open>Example feeds\<close>

text \<open>
  Two small feeds with the columns of the MODIS and of the VIIRS products, used where a
  statement is evaluated on a concrete batch.
\<close>

definition modis_header :: "string list" where
  "modis_header =
     [''latitude'', ''longitude'', ''brightness'', ''scan'', ''track'', ''acq_date'',
      ''acq_time'', ''satellite'', ''confidence'', ''version'', ''bright_t31'', ''frp'',
      ''daynight'']"

definition modis_row :: "real \<Rightarrow> real \<Rightarrow> string \<Rightarrow> string \<Rightarrow> real \<Rightarrow> row" where
  "modis_row la lo d t c =
     zip modis_header
       [Num la, Num lo, Num 300, Num 1, Num 1, Str d, Str t, Str ''Terra'', Num c,
        Str ''6.1NRT'', Num 290, Num 5, Str ''D'']"

definition viirs_header :: "string list" where
  "viirs_header =
     [''latitude'', ''longitude'', ''bright_ti4'', ''scan'', ''track'', ''acq_date'',
      ''acq_time'', ''satellite'', ''confidence'', ''version'', ''bright_ti5'', ''frp'',
      ''daynight'']"

definition viirs_row :: "real \<Rightarrow> real \<Rightarrow> string \<Rightarrow> string \<Rightarrow> string \<Rightarrow> row" where
  "viirs_row la lo d t c =
     zip viirs_header
       [Num la, Num lo, Num 330, Num 1, Num 1, Str d, Str t, Str ''N'', Str c,
        Str ''2.0NRT'', Num 295, Num 4, Str ''N'']"

definition modis_example :: frame where
  "modis_example =
     \<lparr>columns = modis_header,
      rows = [modis_row 10 20 ''2024-01-02'' ''1200'' 85,
              modis_row 11 21 ''2024-01-01'' ''930'' 50,
              modis_row 12 22 ''2024-01-01'' ''930'' 70,
              modis_row 13 23 ''2024-01-01'' ''930'' 69]\<rparr>"

definition viirs_example :: frame where
  "viirs_example =
     \<lparr>columns = viirs_header,
      rows = [viirs_row 10 20 ''2024-01-02'' ''1200'' ''high'',
              viirs_row 12 22 ''2024-01-01'' ''930'' ''low'',
              viirs_row 14 24 ''2024-01-01'' ''930'' ''nominal'']\<rparr>"

text \<open>
  A feed whose confidence column holds a label and a missing value: an object column that
  is not all strings, which pandas 2 classifies as neither numeric nor string.
\<close>

definition mixed_example :: frame where
  "mixed_example =
     \<lparr>columns = viirs_header,
      rows = [viirs_row 10 20 ''2024-01-02'' ''1200'' ''high'',
              AList.update ''confidence'' NaN (viirs_row 12 22 ''2024-01-01'' ''930'' ''n'')]\<rparr>"


definition str_example :: "cell \<Rightarrow> string" where
  "str_example c =
     (case c of Str s \<Rightarrow> s
      | Num x \<Rightarrow> (if x = 85 then ''85'' else if x = 50 then ''50'' else ''0'')
      | _ \<Rightarrow> ''nan'')"

text \<open>
  A toy geometry library for the examples of the geospatial filter: the reprojection
  from \<open>EPSG:3857\<close> to \<open>EPSG:4326\<close> divides the coordinates of a point by 100 and every
  other reprojection fails; a point is within a polygon when it lies strictly inside
  the bounding box of the polygon's vertices, and the test raises on anything that is
  not a point and a polygon.
\<close>

definition example_transform :: "string \<Rightarrow> string \<Rightarrow> geometry \<Rightarrow> geometry option" where
  "example_transform src dst g =
     (if src = ''EPSG:3857'' \<and> dst = ''EPSG:4326''
      then (case g of
              Point (Some x) (Some y) \<Rightarrow> Some (Point (Some (x / 100)) (Some (y / 100)))
            | _ \<Rightarrow> None)
      else None)"

definition box_within :: "cell \<Rightarrow> cell \<Rightarrow> bool option" where
  "box_within point polygon =
     (case (point, polygon) of
        (Geom (Point (Some x) (Some y)), Geom (Polygon vs)) \<Rightarrow>
          Some (list_ex (\<lambda>v. fst v < x) vs \<and> list_ex (\<lambda>v. x < fst v) vs \<and>
                list_ex (\<lambda>v. snd v < y) vs \<and> list_ex (\<lambda>v. y < snd v) vs)
      | _ \<Rightarrow> None)"

definition firms_example :: geoframe where
  "firms_example =
     \<lparr>columns = [''confidence'', ''geometry''],
      rows = [[(''confidence'', Str ''85''), (''geometry'', Geom (Point (Some 150) (Some 150)))],
              [(''confidence'', Str ''90''), (''geometry'', Geom (Point (Some 500) (Some 500)))],
              [(''confidence'', Str ''high''), (''geometry'', Geom (Point (Some 1050) (Some 1050)))]],
      crs = Some ''EPSG:3857''\<rparr>"

definition country_example :: geoframe where
  "country_example =
     \<lparr>columns = [''display_name'', ''geometry''],
      rows = [[(''display_name'', Str ''Mainland''),
               (''geometry'', Geom (Polygon [(1, 1), (2, 1), (2, 2), (1, 2)]))],
              [(''display_name'', Str ''Island''),
               (''geometry'', Geom (Polygon [(10, 10), (11, 10), (11, 11), (10, 11)]))]],
      crs = Some ''EPSG:4326''\<rparr>"

section \<open>Properties of the feed URL builder\<close>

lemma mem_iff_code:
  "c \<in> set (s::string) \<longleftrightarrow> (of_char c :: nat) \<in> set (map of_char s)"
proof -
  have "inj (of_char :: char \<Rightarrow> nat)" by (rule inj_of_char)
  then show ?thesis by (auto simp: inj_def)
qed

lemma lower_char_hex:
  "lower_char c \<in> set ''0123456789abcdef'' \<longleftrightarrow> c \<in> set ''0123456789abcdefABCDEF''"
proof -
  define n where "n = (of_char c :: nat)"
  show ?thesis
  proof (cases "65 \<le> n \<and> n \<le> 90")
    case True
    then have "(of_char (lower_char c) :: nat) = n + 32"
      by (simp add: lower_char_def Let_def n_def [symmetric])
    then show ?thesis using True
      by (simp only: mem_iff_code [of "lower_char c"] mem_iff_code [of c] n_def [symmetric])
         auto
  next
    case False
    then have "lower_char c = c" by (auto simp: lower_char_def Let_def n_def)
    then show ?thesis using False
      by (simp only: mem_iff_code [of c] n_def [symmetric]) auto
  qed
qed

lemma lower_all_hex:
  "list_all (\<lambda>c. c \<in> set ''0123456789abcdef'') (lower s) \<longleftrightarrow>
   list_all (\<lambda>c. c \<in> set ''0123456789abcdefABCDEF'') s"
  unfolding lower_def list_all_iff using lower_char_hex by auto

lemma feed_url_inj: "feed_url k p = feed_url k q \<longleftrightarrow> p = q"
  by (simp add: feed_url_def)

text \<open>
  C3, as the specification states it: the builder succeeds exactly on the strings of 32
  lowercase hexadecimal characters. The code lowercases the key before it tests the
  characters, so a key of 32 uppercase hexadecimal digits is accepted although it is not
  lowercase.
\<close>

theorem create_firms_csv_urls_uppercase_counterexample:
  "\<not> lowercase_hex32 ''AAAAAAAAAAAAAAAAAAAAAAAAAAAAAAAA'' \<and>
   create_firms_csv_urls ''AAAAAAAAAAAAAAAAAAAAAAAAAAAAAAAA'' =
     Inr (feed_url ''AAAAAAAAAAAAAAAAAAAAAAAAAAAAAAAA'' ''MODIS_NRT'',
          feed_url ''AAAAAAAAAAAAAAAAAAAAAAAAAAAAAAAA'' ''VIIRS_NOAA20_NRT'',
          feed_url ''AAAAAAAAAAAAAAAAAAAAAAAAAAAAAAAA'' ''VIIRS_SNPP_NRT'')"
  unfolding create_firms_csv_urls_def lower_all_hex lowercase_hex32_def
  by simp

text \<open>
  C3, amended: for every input string the builder returns the three feed URLs (for the
  three distinct products MODIS_NRT, VIIRS_NOAA20_NRT and VIIRS_SNPP_NRT, the key placed
  in them as it was given) if and only if the string is exactly 32 hexadecimal
  characters in either letter case; every other string is rejected with a ValueError
  (the empty string with the "key is required" message, the others with the
  "invalid key" message). The function touches no network.
\<close>

theorem create_firms_csv_urls_iff_hex32:
  "create_firms_csv_urls k =
     (if anycase_hex32 k
      then Inr (feed_url k ''MODIS_NRT'', feed_url k ''VIIRS_NOAA20_NRT'',
                feed_url k ''VIIRS_SNPP_NRT'')
      else Inl (if k = [] then KeyRequired else InvalidKey)) \<and>
   feed_url k ''MODIS_NRT'' \<noteq> feed_url k ''VIIRS_NOAA20_NRT'' \<and>
   feed_url k ''MODIS_NRT'' \<noteq> feed_url k ''VIIRS_SNPP_NRT'' \<and>
   feed_url k ''VIIRS_NOAA20_NRT'' \<noteq> feed_url k ''VIIRS_SNPP_NRT'' \<and>
   is_ValueError KeyRequired \<and> is_ValueError InvalidKey"
proof -
  have "create_firms_csv_urls k =
     (if anycase_hex32 k
      then Inr (feed_url k ''MODIS_NRT'', feed_url k ''VIIRS_NOAA20_NRT'',
                feed_url k ''VIIRS_SNPP_NRT'')
      else Inl (if k = [] then KeyRequired else InvalidKey))"
    unfolding create_firms_csv_urls_def anycase_hex32_def lower_all_hex
    by (cases "k = []") auto
  then show ?thesis by (simp add: feed_url_inj)
qed

theorem create_firms_csv_urls_iff_hex32_witness:
  "create_firms_csv_urls ''0123456789abcdef0123456789ABCDEF'' =
     Inr (feed_url ''0123456789abcdef0123456789ABCDEF'' ''MODIS_NRT'',
          feed_url ''0123456789abcdef0123456789ABCDEF'' ''VIIRS_NOAA20_NRT'',
          feed_url ''0123456789abcdef0123456789ABCDEF'' ''VIIRS_SNPP_NRT'') \<and>
   create_firms_csv_urls ''0123456789abcdef0123456789abcdeg'' = Inl InvalidKey"
  using create_firms_csv_urls_iff_hex32 [of "''0123456789abcdef0123456789ABCDEF''"]
    create_firms_csv_urls_iff_hex32 [of "''0123456789abcdef0123456789abcdeg''"]
  by (simp add: anycase_hex32_def)

section \<open>Frames: cells after an update or a renaming\<close>

lemma cell_at_update [simp]:
  "cell_at (AList.update c v r) c' = (if c' = c then v else cell_at r c')"
  by (simp add: cell_at_def update_conv')

lemma rows_assign [simp]: "rows (assign c f df) = map (\<lambda>r. AList.update c (f r) r) (rows df)"
  by (simp add: assign_def)

lemma columns_assign [simp]:
  "columns (assign c f df) = (if c \<in> set (columns df) then columns df else columns df @ [c])"
  by (simp add: assign_def)

lemma map_of_rename_key:
  assumes "\<And>k. ren k = c \<longleftrightarrow> k = c"
  shows "map_of (map (\<lambda>(k, v). (ren k, v)) r) c = map_of r c"
proof (induction r)
  case Nil
  show ?case by simp
next
  case (Cons a r)
  obtain k v where a: "a = (k, v)" by (cases a)
  show ?case using Cons assms [of k] by (cases "ren k = c") (auto simp: a)
qed

lemma rows_rename [simp]:
  "rows (rename m df) = map (map (\<lambda>(k, v). (rename_label m k, v))) (rows df)"
  by (simp add: rename_def)

lemma columns_rename [simp]: "columns (rename m df) = map (rename_label m) (columns df)"
  by (simp add: rename_def)

lemma cell_at_renamed:
  assumes "\<And>k. rename_label m k = c \<longleftrightarrow> k = c"
  shows "cell_at (map (\<lambda>(k, v). (rename_label m k, v)) r) c = cell_at r c"
  unfolding cell_at_def using assms by (simp add: map_of_rename_key)

lemma rename_label_pair:
  "rename_label [(a, a'), (b, b')] k = (if k = a then a' else if k = b then b' else k)"
  by (simp add: rename_label_def)

lemma rename_label_keeps:
  assumes "c \<noteq> a" "c \<noteq> b" "c \<noteq> a'" "c \<noteq> b'"
  shows "rename_label [(a, a'), (b, b')] k = c \<longleftrightarrow> k = c"
  using assms unfolding rename_label_pair by (cases "k = a"; cases "k = b"; simp)

section \<open>The normalizer computes the row-wise description\<close>

lemma py_eq_Stamp_series_max [simp]: "py_eq (series_max cs) (Stamp t) = False"
  by (simp add: series_max_def split: list.splits)

lemma date_time_text_cong:
  "cell_at r1 ''acq_date'' = cell_at r2 ''acq_date'' \<Longrightarrow>
   cell_at r1 ''acq_time'' = cell_at r2 ''acq_time'' \<Longrightarrow> date_time_text r1 = date_time_text r2"
  by (simp add: date_time_text_def split: cell.splits)

lemma cell_at_relabel:
  assumes "c \<noteq> ''brightness''" "c \<noteq> ''bright_t31''"
    "c \<noteq> ''bright_ti4''" "c \<noteq> ''bright_ti5''" "c \<noteq> ''brightness_a''" "c \<noteq> ''brightness_b''"
  shows "cell_at (relabel dt r) c = cell_at r c"
  using assms
  by (simp add: relabel_def modis_names_def viirs_names_def cell_at_renamed rename_label_keeps)

lemma rows_mark_confidence:
  "rows (mark_confidence dt (assign ''high_confidence'' (\<lambda>r. Flag False) data)) =
     map (\<lambda>r. relabel dt (AList.update ''high_confidence'' (Flag (high_confidence_of dt r)) r))
       (rows data)"
proof (cases dt)
  case NumericDtype
  then show ?thesis
    by (simp add: mark_confidence_def set_where_def comp_def relabel_def high_confidence_of_def
        modis_names_def)
next
  case StringDtype
  then show ?thesis
    by (simp add: mark_confidence_def set_where_def comp_def relabel_def high_confidence_of_def
        viirs_names_def)
next
  case OtherDtype
  then show ?thesis
    by (simp add: mark_confidence_def comp_def relabel_def high_confidence_of_def)
qed

lemma columns_mark_confidence:
  "columns (mark_confidence dt (assign ''high_confidence'' f data)) =
     relabel_columns dt (add_label ''high_confidence'' (columns data))"
  by (cases dt)
     (simp_all add: mark_confidence_def set_where_def relabel_columns_def add_label_def
        modis_names_def viirs_names_def)

lemma mem_relabel_columns:
  assumes "c \<noteq> ''brightness''" "c \<noteq> ''bright_t31''"
    "c \<noteq> ''bright_ti4''" "c \<noteq> ''bright_ti5''" "c \<noteq> ''brightness_a''" "c \<noteq> ''brightness_b''"
  shows "c \<in> set (relabel_columns dt cs) \<longleftrightarrow> c \<in> set cs"
proof -
  have "c \<in> rename_label [(a, a'), (b, b')] ` set cs \<longleftrightarrow> c \<in> set cs"
    if "c \<noteq> a" "c \<noteq> b" "c \<noteq> a'" "c \<noteq> b'" for a a' b b'
  proof -
    have "c \<in> rename_label [(a, a'), (b, b')] ` set cs \<longleftrightarrow>
        (\<exists>k\<in>set cs. rename_label [(a, a'), (b, b')] k = c)"
      by auto
    also have "\<dots> \<longleftrightarrow> c \<in> set cs"
      by (simp add: rename_label_keeps [OF that])
    finally show ?thesis .
  qed
  with assms show ?thesis
    by (simp add: relabel_columns_def modis_names_def viirs_names_def)
qed

lemma staged_acq_date:
  "cell_at (relabel dt (AList.update ''high_confidence'' v r)) ''acq_date'' = cell_at r ''acq_date''"
  by (simp add: cell_at_relabel)

lemma staged_acq_time:
  "cell_at (relabel dt (AList.update ''high_confidence'' v r)) ''acq_time'' = cell_at r ''acq_time''"
  by (simp add: cell_at_relabel)

lemma staged_datetime:
  "to_datetime (date_time_text
      (AList.update ''acq_time'' (str_pad_left 4 CHR ''0'' (cell_at r ''acq_time''))
         (relabel dt (AList.update ''high_confidence'' v r)))) = acq_datetime_of r"
proof -
  have "date_time_text
      (AList.update ''acq_time'' (str_pad_left 4 CHR ''0'' (cell_at r ''acq_time''))
         (relabel dt (AList.update ''high_confidence'' v r))) =
    date_time_text
      (AList.update ''acq_time'' (str_pad_left 4 CHR ''0'' (cell_at r ''acq_time'')) r)"
    by (rule date_time_text_cong) (simp_all add: cell_at_relabel)
  then show ?thesis by (simp add: acq_datetime_of_def)
qed

lemma rank_NaN_iff: "rank_dense_desc col c = NaN \<longleftrightarrow> (\<forall>s. c \<noteq> Str s)"
  by (cases c) (simp_all add: rank_dense_desc_def)

lemma acq_datetime_of_Str:
  "acq_datetime_of r \<noteq> NaN \<Longrightarrow> \<exists>s. cell_at r ''acq_date'' = Str s"
  by (cases "cell_at r ''acq_date''")
     (simp_all add: acq_datetime_of_def date_time_text_def to_datetime_def)

lemma process_csv_data_rows:
  assumes "process_csv_data str_of today dt csv = Inr df"
  shows "rows df = map (normalize_row str_of dt (column csv ''acq_date'')) (rows csv)"
  using assms
  apply (simp add: process_csv_data_def Let_def split: if_splits)
  apply (auto simp: column_def comp_def rows_mark_confidence normalize_row_def Let_def
      staged_acq_date staged_acq_time staged_datetime cell_at_relabel)
  done

lemma filter_required_assign:
  "filter (\<lambda>col. col \<notin> set (columns (assign ''high_confidence'' f csv))) required_columns =
   filter (\<lambda>col. col \<notin> set (columns csv)) required_columns"
  by (simp add: required_columns_def)

lemma required_present:
  assumes "filter (\<lambda>col. col \<notin> set cs) required_columns = []"
  shows "''confidence'' \<in> set cs" "''acq_date'' \<in> set cs" "''acq_time'' \<in> set cs"
    "''satellite'' \<in> set cs"
  using assms by (auto simp: required_columns_def split: if_splits)

lemma columns_assign_add: "columns (assign c f df) = add_label c (columns df)"
  by (simp add: add_label_def)

lemma list_ex_datetime:
  "list_ex (\<lambda>r. cell_at r ''acq_datetime'' = NaN)
     (rows (assign ''acq_datetime'' (\<lambda>r. to_datetime (date_time_text r))
        (assign ''acq_time'' (\<lambda>r. str_pad_left 4 CHR ''0'' (cell_at r ''acq_time''))
           (mark_confidence dt (assign ''high_confidence'' (\<lambda>r. Flag False) csv))))) =
   list_ex (\<lambda>r. acq_datetime_of r = NaN) (rows csv)"
  by (simp add: rows_mark_confidence list_ex_iff comp_def staged_acq_time staged_datetime)

lemma process_csv_data_result:
  "process_csv_data str_of today dt csv =
     (let missing = filter (\<lambda>c. c \<notin> set (columns csv)) required_columns
      in if missing \<noteq> [] then Inl (DataProcessingError (MissingColumns missing))
         else if list_ex (\<lambda>r. acq_datetime_of r = NaN) (rows csv)
           then Inl (DataProcessingError DatetimeConversion)
         else Inr \<lparr>columns = normalize_columns dt (columns csv),
                   rows = map (normalize_row str_of dt (column csv ''acq_date'')) (rows csv)\<rparr>)"
proof (cases "filter (\<lambda>c. c \<notin> set (columns csv)) required_columns = []")
  case False
  then show ?thesis
    unfolding process_csv_data_def Let_def filter_required_assign by simp
next
  case True
  note req = required_present [OF True]
  show ?thesis
  proof (cases "list_ex (\<lambda>r. acq_datetime_of r = NaN) (rows csv)")
    case bad: True
    then show ?thesis using True
      unfolding process_csv_data_def Let_def filter_required_assign list_ex_datetime by simp
  next
    case good: False
    have ranks: "\<not> list_ex (\<lambda>r. rank_dense_desc col (cell_at r ''acq_date'') = NaN)
        (map (\<lambda>r. AList.update ''acq_datetime'' (f r) (AList.update ''acq_time'' (g r)
            (relabel dt (AList.update ''high_confidence'' (h r) r)))) (rows csv))" for col f g h
      using good acq_datetime_of_Str
      by (fastforce simp: list_ex_iff rank_NaN_iff staged_acq_date)
    define D where "D = assign ''confidence'' (\<lambda>r. Str (str_of (cell_at r ''confidence'')))
            (assign ''satellite'' (\<lambda>r. Str (str_of (cell_at r ''satellite'')))
              (assign ''days_ago''
                (\<lambda>r. rank_dense_desc
                      (column (assign ''acq_datetime'' (\<lambda>r. to_datetime (date_time_text r))
                  (assign ''acq_time''
                    (\<lambda>r. str_pad_left 4 CHR ''0'' (cell_at r ''acq_time''))
                    (mark_confidence dt
                      (assign ''high_confidence'' (\<lambda>r. Flag False)
                        csv)))) ''acq_date'')
                      (cell_at r ''acq_date''))
                (assign ''acq_datetime'' (\<lambda>r. to_datetime (date_time_text r))
                  (assign ''acq_time''
                    (\<lambda>r. str_pad_left 4 CHR ''0'' (cell_at r ''acq_time''))
                    (mark_confidence dt
                      (assign ''high_confidence'' (\<lambda>r. Flag False)
                        csv))))))"
    have res: "process_csv_data str_of today dt csv = Inr D"
      using True good
      unfolding process_csv_data_def Let_def filter_required_assign list_ex_datetime D_def
      by (simp add: rows_mark_confidence comp_def column_def ranks)
    have rws: "rows D = map (normalize_row str_of dt (column csv ''acq_date'')) (rows csv)"
      by (rule process_csv_data_rows [OF res])
    have cols: "columns D = normalize_columns dt (columns csv)"
      unfolding D_def columns_assign_add columns_mark_confidence normalize_columns_def
      using req by (simp add: add_label_def mem_relabel_columns)
    have "D = \<lparr>columns = normalize_columns dt (columns csv),
                   rows = map (normalize_row str_of dt (column csv ''acq_date'')) (rows csv)\<rparr>"
      using rws cols by (cases D) simp
    then show ?thesis using True good res by simp
  qed
qed

section \<open>Properties of the record normalizer\<close>

lemmas strptime_eval = strptime_def acq_format_def re_Y_def re_m_def re_d_def re_H_def re_M_def
  re_S_def is_digit_def is_space_def int_of_str_def days_in_month_def is_leap_def

lemmas normalize_eval = normalize_row_def relabel_def high_confidence_of_def acq_datetime_of_def
  date_time_text_def time_text_def zfill_def str_pad_left_def to_datetime_def rank_dense_desc_def
  ge70_def isin_def modis_names_def viirs_names_def rename_label_def column_def cell_at_def
  normalize_columns_def relabel_columns_def add_label_def required_columns_def
  modis_header_def modis_row_def viirs_header_def viirs_row_def Let_def

lemma strptime_0930: "strptime ''2024-01-01 0930'' = Some (Timestamp 2024 1 1 9 3 0)"
  by code_simp

lemma strptime_1200: "strptime ''2024-01-02 1200'' = Some (Timestamp 2024 1 2 12 0 0)"
  by code_simp

lemma strptime_bad: "strptime ''2024-01-01 09x0'' = None"
  by code_simp

text \<open>
  C1, on the code: the normalizer pads \<open>acq_time\<close> to four characters and joins it to
  \<open>acq_date\<close> with a space, but parses the text with the format
  \<^verbatim>\<open>%Y-%m-%d %H%M%S\<close>, not \<^verbatim>\<open>%Y-%m-%d %H%M\<close>. The four digits \<open>0930\<close> are split
  over three fields: hour 09, minute 3, second 0. The row with \<open>acq_date = 2024-01-01\<close>
  and \<open>acq_time = 930\<close> gets the acquisition datetime 2024-01-01 09:03:00, not
  09:30:00.
\<close>

theorem process_csv_data_acq_time_930:
  "\<exists>df. process_csv_data str_of today NumericDtype
           \<lparr>columns = modis_header, rows = [modis_row 10 20 ''2024-01-01'' ''930'' 85]\<rparr> = Inr df \<and>
        column df ''acq_datetime'' = [Stamp (Timestamp 2024 1 1 9 3 0)]"
proof -
  have "case process_csv_data str_of today NumericDtype
           \<lparr>columns = modis_header, rows = [modis_row 10 20 ''2024-01-01'' ''930'' 85]\<rparr> of
          Inl e \<Rightarrow> False
        | Inr df \<Rightarrow> column df ''acq_datetime'' = [Stamp (Timestamp 2024 1 1 9 3 0)]"
    by code_simp
  then show ?thesis by (auto split: sum.splits)
qed

text \<open>
  C2, on the code: \<open>acq_date\<close> is read as text, so the most recent date is a string
  and never equals the timestamp of the current date; the branch that subtracts one is
  never taken. A batch whose most recent acquisition date is the current date
  (2024-01-02) gets \<open>days_ago = 1\<close> on its most recent records, not 0.
\<close>

theorem process_csv_data_days_ago_today:
  "\<exists>df. process_csv_data str_of (Timestamp 2024 1 2 0 0 0) NumericDtype
           \<lparr>columns = modis_header,
            rows = [modis_row 10 20 ''2024-01-02'' ''1200'' 85,
                    modis_row 11 21 ''2024-01-01'' ''930'' 85]\<rparr> = Inr df \<and>
        column df ''acq_date'' = [Str ''2024-01-02'', Str ''2024-01-01''] \<and>
        column df ''days_ago'' = [Num 1, Num 2]"
proof -
  have "case process_csv_data str_of (Timestamp 2024 1 2 0 0 0) NumericDtype
           \<lparr>columns = modis_header,
            rows = [modis_row 10 20 ''2024-01-02'' ''1200'' 85,
                    modis_row 11 21 ''2024-01-01'' ''930'' 85]\<rparr> of
          Inl e \<Rightarrow> False
        | Inr df \<Rightarrow> column df ''acq_date'' = [Str ''2024-01-02'', Str ''2024-01-01''] \<and>
            column df ''days_ago'' = [Num 1, Num 2]"
    by code_simp
  then show ?thesis by (auto split: sum.splits)
qed



lemma cell_at_normalize_row_high:
  "cell_at (normalize_row str_of dt dates r) ''high_confidence'' = Flag (high_confidence_of dt r)"
  by (simp add: normalize_row_def Let_def cell_at_relabel)

lemma cell_at_normalize_row_days_ago:
  "cell_at (normalize_row str_of dt dates r) ''days_ago'' =
     rank_dense_desc dates (cell_at r ''acq_date'')"
  by (simp add: normalize_row_def Let_def)

lemma process_csv_data_InrD:
  assumes "process_csv_data str_of today dt csv = Inr df"
  shows "set required_columns \<subseteq> set (columns csv)"
    and "\<forall>r\<in>set (rows csv). acq_datetime_of r \<noteq> NaN"
    and "columns df = normalize_columns dt (columns csv)"
    and "rows df = map (normalize_row str_of dt (column csv ''acq_date'')) (rows csv)"
  using assms unfolding process_csv_data_result Let_def
  by (auto simp: list_ex_iff filter_empty_conv split: if_splits)








lemma map_of_rename_moved:
  assumes "\<And>k. k \<in> fst ` set r \<Longrightarrow> (ren k = c' \<longleftrightarrow> k = c)"
  shows "map_of (map (\<lambda>(k, v). (ren k, v)) r) c' = map_of r c"
  using assms
proof (induction r)
  case Nil
  show ?case by simp
next
  case (Cons a r)
  obtain k v where a: "a = (k, v)" by (cases a)
  have 1: "ren k = c' \<longleftrightarrow> k = c" using Cons.prems [of k] by (simp add: a)
  have 2: "map_of (map (\<lambda>(k, v). (ren k, v)) r) c' = map_of r c"
    by (rule Cons.IH) (simp add: Cons.prems)
  show ?case using 1 2 by (cases "ren k = c'") (auto simp: a)
qed

lemma cell_at_renamed_moved:
  assumes "b \<notin> fst ` set r" "a \<noteq> a'" "a \<noteq> b'" "b \<noteq> a'" "a \<noteq> b" "b \<noteq> b'"
  shows "cell_at (map (\<lambda>(k, v). (rename_label [(a, b), (a', b')] k, v)) r) b = cell_at r a"
    and "a' \<noteq> b \<Longrightarrow> b' \<notin> fst ` set r \<Longrightarrow>
      cell_at (map (\<lambda>(k, v). (rename_label [(a, b), (a', b')] k, v)) r) b' = cell_at r a'"
proof -
  have "rename_label [(a, b), (a', b')] k = b \<longleftrightarrow> k = a" if "k \<in> fst ` set r" for k
    using that assms unfolding rename_label_pair by (cases "k = a"; cases "k = a'") auto
  then show "cell_at (map (\<lambda>(k, v). (rename_label [(a, b), (a', b')] k, v)) r) b = cell_at r a"
    unfolding cell_at_def by (simp add: map_of_rename_moved)
  assume "a' \<noteq> b" "b' \<notin> fst ` set r"
  then have "rename_label [(a, b), (a', b')] k = b' \<longleftrightarrow> k = a'" if "k \<in> fst ` set r" for k
    using that assms unfolding rename_label_pair by (cases "k = a"; cases "k = a'") auto
  then show "cell_at (map (\<lambda>(k, v). (rename_label [(a, b), (a', b')] k, v)) r) b' = cell_at r a'"
    unfolding cell_at_def by (simp add: map_of_rename_moved)
qed

lemma fst_set_update: "fst ` set (AList.update k v r) = insert k (fst ` set r)"
  using dom_update [of k v r] by (simp add: dom_map_of_conv_image_fst)

lemma normalize_row_brightness_numeric:
  assumes "''brightness_a'' \<notin> fst ` set r"
  shows "cell_at (normalize_row str_of NumericDtype dates r) ''brightness_a'' = cell_at r ''brightness''"
  using assms
  by (simp add: normalize_row_def Let_def relabel_def modis_names_def cell_at_renamed_moved(1)
      fst_set_update)

lemma cell_at_renamed_moved2:
  assumes "b' \<notin> fst ` set r" "a \<noteq> a'" "b \<noteq> b'" "a' \<noteq> b'" "a \<noteq> b'"
  shows "cell_at (map (\<lambda>(k, v). (rename_label [(a, b), (a', b')] k, v)) r) b' = cell_at r a'"
proof -
  have "rename_label [(a, b), (a', b')] k = b' \<longleftrightarrow> k = a'" if "k \<in> fst ` set r" for k
    using that assms unfolding rename_label_pair by (cases "k = a"; cases "k = a'") auto
  then show ?thesis
    unfolding cell_at_def by (simp add: map_of_rename_moved)
qed

lemma normalize_row_brightness_b_numeric:
  assumes "''brightness_b'' \<notin> fst ` set r"
  shows "cell_at (normalize_row str_of NumericDtype dates r) ''brightness_b'' = cell_at r ''bright_t31''"
  using assms
  by (simp add: normalize_row_def Let_def relabel_def modis_names_def cell_at_renamed_moved2
      fst_set_update)

lemma normalize_row_brightness_string:
  assumes "''brightness_a'' \<notin> fst ` set r"
  shows "cell_at (normalize_row str_of StringDtype dates r) ''brightness_a'' = cell_at r ''bright_ti4''"
  using assms
  by (simp add: normalize_row_def Let_def relabel_def viirs_names_def cell_at_renamed_moved(1)
      fst_set_update)

lemma normalize_row_brightness_b_string:
  assumes "''brightness_b'' \<notin> fst ` set r"
  shows "cell_at (normalize_row str_of StringDtype dates r) ''brightness_b'' = cell_at r ''bright_ti5''"
  using assms
  by (simp add: normalize_row_def Let_def relabel_def viirs_names_def cell_at_renamed_moved2
      fst_set_update)

lemma normalize_row_other:
  "cell_at (normalize_row str_of OtherDtype dates r) ''brightness_a'' = cell_at r ''brightness_a''"
  "cell_at (normalize_row str_of OtherDtype dates r) ''brightness_b'' = cell_at r ''brightness_b''"
  by (simp_all add: normalize_row_def Let_def relabel_def)

lemma mem_add_label: "c \<in> set (add_label c' cs) \<longleftrightarrow> c = c' \<or> c \<in> set cs"
  by (auto simp: add_label_def)

lemma normalize_columns_other:
  "c \<in> set (normalize_columns OtherDtype cs) \<longleftrightarrow>
     c \<in> {''days_ago'', ''acq_datetime'', ''high_confidence''} \<or> c \<in> set cs"
  by (auto simp: normalize_columns_def relabel_columns_def mem_add_label)

lemma mem_map_rename_pair:
  "c \<in> rename_label [(a, a'), (b, b')] ` set cs \<longleftrightarrow>
     (a \<in> set cs \<and> c = a') \<or> (a \<noteq> b \<and> b \<in> set cs \<and> c = b') \<or>
     (c \<noteq> a \<and> c \<noteq> b \<and> c \<in> set cs)"
  unfolding rename_label_pair by (auto simp: image_iff)

lemma normalize_columns_numeric:
  "''brightness'' \<notin> set (normalize_columns NumericDtype cs)"
  "''bright_t31'' \<notin> set (normalize_columns NumericDtype cs)"
  "''brightness'' \<in> set cs \<Longrightarrow> ''brightness_a'' \<in> set (normalize_columns NumericDtype cs)"
  "''bright_t31'' \<in> set cs \<Longrightarrow> ''brightness_b'' \<in> set (normalize_columns NumericDtype cs)"
  by (simp_all add: normalize_columns_def relabel_columns_def mem_add_label modis_names_def
      mem_map_rename_pair)

lemma normalize_columns_string:
  "''bright_ti4'' \<notin> set (normalize_columns StringDtype cs)"
  "''bright_ti5'' \<notin> set (normalize_columns StringDtype cs)"
  "''bright_ti4'' \<in> set cs \<Longrightarrow> ''brightness_a'' \<in> set (normalize_columns StringDtype cs)"
  "''bright_ti5'' \<in> set cs \<Longrightarrow> ''brightness_b'' \<in> set (normalize_columns StringDtype cs)"
  by (simp_all add: normalize_columns_def relabel_columns_def mem_add_label viirs_names_def
      mem_map_rename_pair)

lemma not_has_label_row: "\<not> has_label df c \<Longrightarrow> r \<in> set (rows df) \<Longrightarrow> c \<notin> fst ` set r"
  by (auto simp: has_label_def)

lemma ge70_iff: "ge70 c \<longleftrightarrow> (\<exists>x. c = Num x \<and> 70 \<le> x)"
  by (cases c) (simp_all add: ge70_def)

lemma isin_nominal_high:
  "isin c [''nominal'', ''high''] \<longleftrightarrow> c = Str ''nominal'' \<or> c = Str ''high''"
  by (cases c) (auto simp: isin_def)

text \<open>
  C4: what a returned batch holds, by the representation of the confidence column.
  Numeric: \<open>high_confidence\<close> of a row is true exactly when its confidence is a number
  that is at least 70, the labels \<open>brightness\<close> and \<open>bright_t31\<close> are gone and their
  columns are found under \<open>brightness_a\<close> and \<open>brightness_b\<close>. Textual:
  \<open>high_confidence\<close> is true exactly when the confidence is the text \<open>nominal\<close> or the
  text \<open>high\<close>, and \<open>bright_ti4\<close>, \<open>bright_ti5\<close> are renamed in the same way. Any other
  representation: \<open>high_confidence\<close> is false on every row, \<open>brightness_a\<close> and
  \<open>brightness_b\<close> are columns of the result only if they were columns of the file, with
  the cells they had, and the batch is returned whenever the required columns are there
  and every acquisition datetime parses.
\<close>

theorem process_csv_data_confidence:
  "(\<forall>df. process_csv_data str_of today NumericDtype csv = Inr df \<longrightarrow>
      map (\<lambda>r. cell_at r ''high_confidence'') (rows df) =
        map (\<lambda>r. Flag (\<exists>x. cell_at r ''confidence'' = Num x \<and> 70 \<le> x)) (rows csv) \<and>
      ''brightness'' \<notin> set (columns df) \<and> ''bright_t31'' \<notin> set (columns df) \<and>
      (''brightness'' \<in> set (columns csv) \<longrightarrow> ''brightness_a'' \<in> set (columns df)) \<and>
      (''bright_t31'' \<in> set (columns csv) \<longrightarrow> ''brightness_b'' \<in> set (columns df)) \<and>
      (\<not> has_label csv ''brightness_a'' \<longrightarrow>
         map (\<lambda>r. cell_at r ''brightness_a'') (rows df) =
         map (\<lambda>r. cell_at r ''brightness'') (rows csv)) \<and>
      (\<not> has_label csv ''brightness_b'' \<longrightarrow>
         map (\<lambda>r. cell_at r ''brightness_b'') (rows df) =
         map (\<lambda>r. cell_at r ''bright_t31'') (rows csv))) \<and>
   (\<forall>df. process_csv_data str_of today StringDtype csv = Inr df \<longrightarrow>
      map (\<lambda>r. cell_at r ''high_confidence'') (rows df) =
        map (\<lambda>r. Flag (cell_at r ''confidence'' = Str ''nominal'' \<or>
                       cell_at r ''confidence'' = Str ''high'')) (rows csv) \<and>
      ''bright_ti4'' \<notin> set (columns df) \<and> ''bright_ti5'' \<notin> set (columns df) \<and>
      (''bright_ti4'' \<in> set (columns csv) \<longrightarrow> ''brightness_a'' \<in> set (columns df)) \<and>
      (''bright_ti5'' \<in> set (columns csv) \<longrightarrow> ''brightness_b'' \<in> set (columns df)) \<and>
      (\<not> has_label csv ''brightness_a'' \<longrightarrow>
         map (\<lambda>r. cell_at r ''brightness_a'') (rows df) =
         map (\<lambda>r. cell_at r ''bright_ti4'') (rows csv)) \<and>
      (\<not> has_label csv ''brightness_b'' \<longrightarrow>
         map (\<lambda>r. cell_at r ''brightness_b'') (rows df) =
         map (\<lambda>r. cell_at r ''bright_ti5'') (rows csv))) \<and>
   (\<forall>df. process_csv_data str_of today OtherDtype csv = Inr df \<longrightarrow>
      map (\<lambda>r. cell_at r ''high_confidence'') (rows df) = map (\<lambda>r. Flag False) (rows csv) \<and>
      (''brightness_a'' \<in> set (columns df) \<longleftrightarrow> ''brightness_a'' \<in> set (columns csv)) \<and>
      (''brightness_b'' \<in> set (columns df) \<longleftrightarrow> ''brightness_b'' \<in> set (columns csv)) \<and>
      map (\<lambda>r. cell_at r ''brightness_a'') (rows df) =
        map (\<lambda>r. cell_at r ''brightness_a'') (rows csv) \<and>
      map (\<lambda>r. cell_at r ''brightness_b'') (rows df) =
        map (\<lambda>r. cell_at r ''brightness_b'') (rows csv)) \<and>
   (set [''confidence'', ''acq_date'', ''acq_time'', ''satellite''] \<subseteq> set (columns csv) \<and>
    (\<forall>r\<in>set (rows csv). acq_datetime_of r \<noteq> NaN) \<longrightarrow>
      (\<exists>df. process_csv_data str_of today OtherDtype csv = Inr df))"
proof (intro conjI allI impI)
  fix df assume ok: "process_csv_data str_of today NumericDtype csv = Inr df"
  note D = process_csv_data_InrD [OF ok]
  show "map (\<lambda>r. cell_at r ''high_confidence'') (rows df) =
        map (\<lambda>r. Flag (\<exists>x. cell_at r ''confidence'' = Num x \<and> 70 \<le> x)) (rows csv)"
    by (simp add: D(4) comp_def cell_at_normalize_row_high high_confidence_of_def ge70_iff)
  show "''brightness'' \<notin> set (columns df)" "''bright_t31'' \<notin> set (columns df)"
    by (simp_all add: D(3) normalize_columns_numeric)
  show "''brightness_a'' \<in> set (columns df)" if "''brightness'' \<in> set (columns csv)"
    using that by (simp add: D(3) normalize_columns_numeric)
  show "''brightness_b'' \<in> set (columns df)" if "''bright_t31'' \<in> set (columns csv)"
    using that by (simp add: D(3) normalize_columns_numeric)
  show "map (\<lambda>r. cell_at r ''brightness_a'') (rows df) =
         map (\<lambda>r. cell_at r ''brightness'') (rows csv)" if "\<not> has_label csv ''brightness_a''"
    using not_has_label_row [OF that]
    by (simp add: D(4) comp_def normalize_row_brightness_numeric)
  show "map (\<lambda>r. cell_at r ''brightness_b'') (rows df) =
         map (\<lambda>r. cell_at r ''bright_t31'') (rows csv)" if "\<not> has_label csv ''brightness_b''"
    using not_has_label_row [OF that]
    by (simp add: D(4) comp_def normalize_row_brightness_b_numeric)
next
  fix df assume ok: "process_csv_data str_of today StringDtype csv = Inr df"
  note D = process_csv_data_InrD [OF ok]
  show "map (\<lambda>r. cell_at r ''high_confidence'') (rows df) =
        map (\<lambda>r. Flag (cell_at r ''confidence'' = Str ''nominal'' \<or>
                       cell_at r ''confidence'' = Str ''high'')) (rows csv)"
    by (simp add: D(4) comp_def cell_at_normalize_row_high high_confidence_of_def
        isin_nominal_high)
  show "''bright_ti4'' \<notin> set (columns df)" "''bright_ti5'' \<notin> set (columns df)"
    by (simp_all add: D(3) normalize_columns_string)
  show "''brightness_a'' \<in> set (columns df)" if "''bright_ti4'' \<in> set (columns csv)"
    using that by (simp add: D(3) normalize_columns_string)
  show "''brightness_b'' \<in> set (columns df)" if "''bright_ti5'' \<in> set (columns csv)"
    using that by (simp add: D(3) normalize_columns_string)
  show "map (\<lambda>r. cell_at r ''brightness_a'') (rows df) =
         map (\<lambda>r. cell_at r ''bright_ti4'') (rows csv)" if "\<not> has_label csv ''brightness_a''"
    using not_has_label_row [OF that]
    by (simp add: D(4) comp_def normalize_row_brightness_string)
  show "map (\<lambda>r. cell_at r ''brightness_b'') (rows df) =
         map (\<lambda>r. cell_at r ''bright_ti5'') (rows csv)" if "\<not> has_label csv ''brightness_b''"
    using not_has_label_row [OF that]
    by (simp add: D(4) comp_def normalize_row_brightness_b_string)
next
  fix df assume ok: "process_csv_data str_of today OtherDtype csv = Inr df"
  note D = process_csv_data_InrD [OF ok]
  show "map (\<lambda>r. cell_at r ''high_confidence'') (rows df) = map (\<lambda>r. Flag False) (rows csv)"
    by (simp add: D(4) comp_def cell_at_normalize_row_high high_confidence_of_def)
  show "''brightness_a'' \<in> set (columns df) \<longleftrightarrow> ''brightness_a'' \<in> set (columns csv)"
    "''brightness_b'' \<in> set (columns df) \<longleftrightarrow> ''brightness_b'' \<in> set (columns csv)"
    by (simp_all add: D(3) normalize_columns_other)
  show "map (\<lambda>r. cell_at r ''brightness_a'') (rows df) =
        map (\<lambda>r. cell_at r ''brightness_a'') (rows csv)"
    "map (\<lambda>r. cell_at r ''brightness_b'') (rows df) =
        map (\<lambda>r. cell_at r ''brightness_b'') (rows csv)"
    by (simp_all add: D(4) comp_def normalize_row_other)
next
  assume "set [''confidence'', ''acq_date'', ''acq_time'', ''satellite''] \<subseteq> set (columns csv) \<and>
    (\<forall>r\<in>set (rows csv). acq_datetime_of r \<noteq> NaN)"
  then show "\<exists>df. process_csv_data str_of today OtherDtype csv = Inr df"
    unfolding process_csv_data_result Let_def
    by (auto simp: list_ex_iff filter_empty_conv required_columns_def)
qed

lemma modis_example_ok:
  "\<exists>df. process_csv_data str_of today NumericDtype modis_example = Inr df"
proof -
  have "case process_csv_data str_of today NumericDtype modis_example of
          Inl e \<Rightarrow> False | Inr df \<Rightarrow> True"
    by code_simp
  then show ?thesis by (auto split: sum.splits)
qed

lemma viirs_example_ok:
  "\<exists>df. process_csv_data str_of today StringDtype viirs_example = Inr df"
proof -
  have "case process_csv_data str_of today StringDtype viirs_example of
          Inl e \<Rightarrow> False | Inr df \<Rightarrow> True"
    by code_simp
  then show ?thesis by (auto split: sum.splits)
qed

lemma mixed_example_parses:
  "set [''confidence'', ''acq_date'', ''acq_time'', ''satellite''] \<subseteq> set (columns mixed_example)"
  "list_all (\<lambda>r. acq_datetime_of r \<noteq> NaN) (rows mixed_example)"
  by code_simp+

lemma examples_no_brightness_ab:
  "\<not> has_label modis_example ''brightness_a''" "\<not> has_label modis_example ''brightness_b''"
  "\<not> has_label viirs_example ''brightness_a''" "\<not> has_label viirs_example ''brightness_b''"
  by code_simp+

theorem process_csv_data_confidence_witness:
  "(\<exists>df. process_csv_data str_example (Timestamp 2024 1 2 0 0 0) NumericDtype modis_example = Inr df \<and>
         map (\<lambda>r. cell_at r ''confidence'') (rows modis_example) = [Num 85, Num 50, Num 70, Num 69] \<and>
         map (\<lambda>r. cell_at r ''high_confidence'') (rows df) =
           [Flag True, Flag False, Flag True, Flag False] \<and>
         map (\<lambda>r. cell_at r ''brightness_a'') (rows df) = [Num 300, Num 300, Num 300, Num 300] \<and>
         map (\<lambda>r. cell_at r ''brightness_b'') (rows df) = [Num 290, Num 290, Num 290, Num 290] \<and>
         ''brightness'' \<notin> set (columns df) \<and> ''brightness_a'' \<in> set (columns df)) \<and>
   (\<exists>df. process_csv_data str_example (Timestamp 2024 1 2 0 0 0) StringDtype viirs_example = Inr df \<and>
         map (\<lambda>r. cell_at r ''confidence'') (rows viirs_example) =
           [Str ''high'', Str ''low'', Str ''nominal''] \<and>
         map (\<lambda>r. cell_at r ''high_confidence'') (rows df) = [Flag True, Flag False, Flag True] \<and>
         map (\<lambda>r. cell_at r ''brightness_a'') (rows df) = [Num 330, Num 330, Num 330] \<and>
         map (\<lambda>r. cell_at r ''brightness_b'') (rows df) = [Num 295, Num 295, Num 295] \<and>
         ''bright_ti4'' \<notin> set (columns df) \<and> ''brightness_a'' \<in> set (columns df)) \<and>
   (\<exists>df. process_csv_data str_example (Timestamp 2024 1 2 0 0 0) OtherDtype mixed_example = Inr df \<and>
         map (\<lambda>r. cell_at r ''confidence'') (rows mixed_example) = [Str ''high'', NaN] \<and>
         map (\<lambda>r. cell_at r ''high_confidence'') (rows df) = [Flag False, Flag False] \<and>
         map (\<lambda>r. cell_at r ''brightness_a'') (rows df) = [NaN, NaN] \<and>
         ''brightness_a'' \<notin> set (columns df))"
proof -
  let ?T = "Timestamp 2024 1 2 0 0 0"
  note inst = process_csv_data_confidence [of str_example ?T]
  obtain d1 where d1: "process_csv_data str_example ?T NumericDtype modis_example = Inr d1"
    using modis_example_ok by blast
  obtain d2 where d2: "process_csv_data str_example ?T StringDtype viirs_example = Inr d2"
    using viirs_example_ok by blast
  obtain d3 where d3: "process_csv_data str_example ?T OtherDtype mixed_example = Inr d3"
    using inst [of mixed_example] mixed_example_parses by (auto simp: list_all_iff)
  have c1: "map (\<lambda>r. cell_at r ''confidence'') (rows modis_example) = [Num 85, Num 50, Num 70, Num 69]"
    "map (\<lambda>r. cell_at r ''brightness'') (rows modis_example) = [Num 300, Num 300, Num 300, Num 300]"
    "map (\<lambda>r. cell_at r ''bright_t31'') (rows modis_example) = [Num 290, Num 290, Num 290, Num 290]"
    "''brightness'' \<in> set (columns modis_example)"
    by code_simp+
  have c2: "map (\<lambda>r. cell_at r ''confidence'') (rows viirs_example) =
        [Str ''high'', Str ''low'', Str ''nominal'']"
    "map (\<lambda>r. cell_at r ''bright_ti4'') (rows viirs_example) = [Num 330, Num 330, Num 330]"
    "map (\<lambda>r. cell_at r ''bright_ti5'') (rows viirs_example) = [Num 295, Num 295, Num 295]"
    "''bright_ti4'' \<in> set (columns viirs_example)"
    by code_simp+
  have c3: "map (\<lambda>r. cell_at r ''confidence'') (rows mixed_example) = [Str ''high'', NaN]"
    "map (\<lambda>r. cell_at r ''brightness_a'') (rows mixed_example) = [NaN, NaN]"
    "''brightness_a'' \<notin> set (columns mixed_example)"
    by code_simp+
  have m1: "map f (rows modis_example) = map (\<lambda>c. f' c) (map (\<lambda>r. cell_at r ''confidence'') (rows modis_example))"
    if "\<And>r. f r = f' (cell_at r ''confidence'')" for f :: "row \<Rightarrow> cell" and f'
    using that by (simp add: comp_def)
  have h1: "map (\<lambda>r. Flag (\<exists>x. cell_at r ''confidence'' = Num x \<and> 70 \<le> x)) (rows modis_example) =
      [Flag True, Flag False, Flag True, Flag False]"
    by (subst m1 [where f' = "\<lambda>c. Flag (\<exists>x. c = Num x \<and> 70 \<le> x)"]) (simp_all add: c1)
  have m2: "map f (rows viirs_example) = map (\<lambda>c. f' c) (map (\<lambda>r. cell_at r ''confidence'') (rows viirs_example))"
    if "\<And>r. f r = f' (cell_at r ''confidence'')" for f :: "row \<Rightarrow> cell" and f'
    using that by (simp add: comp_def)
  have h2: "map (\<lambda>r. Flag (cell_at r ''confidence'' = Str ''nominal'' \<or>
                       cell_at r ''confidence'' = Str ''high'')) (rows viirs_example) =
      [Flag True, Flag False, Flag True]"
    by (subst m2 [where f' = "\<lambda>c. Flag (c = Str ''nominal'' \<or> c = Str ''high'')"])
       (simp_all add: c2)
  have l3: "length (rows mixed_example) = 2" by code_simp
  have h3: "map (\<lambda>r. Flag False) (rows mixed_example) = [Flag False, Flag False]"
    using l3 by (cases "rows mixed_example") (auto simp: length_Suc_conv)
  have 1: "map (\<lambda>r. cell_at r ''high_confidence'') (rows d1) =
           [Flag True, Flag False, Flag True, Flag False] \<and>
         map (\<lambda>r. cell_at r ''brightness_a'') (rows d1) = [Num 300, Num 300, Num 300, Num 300] \<and>
         map (\<lambda>r. cell_at r ''brightness_b'') (rows d1) = [Num 290, Num 290, Num 290, Num 290] \<and>
         ''brightness'' \<notin> set (columns d1) \<and> ''brightness_a'' \<in> set (columns d1)"
    using inst [of modis_example] d1 examples_no_brightness_ab c1 h1 by simp
  have 2: "map (\<lambda>r. cell_at r ''high_confidence'') (rows d2) = [Flag True, Flag False, Flag True] \<and>
         map (\<lambda>r. cell_at r ''brightness_a'') (rows d2) = [Num 330, Num 330, Num 330] \<and>
         map (\<lambda>r. cell_at r ''brightness_b'') (rows d2) = [Num 295, Num 295, Num 295] \<and>
         ''bright_ti4'' \<notin> set (columns d2) \<and> ''brightness_a'' \<in> set (columns d2)"
    using inst [of viirs_example] d2 examples_no_brightness_ab c2 h2 by simp
  have 3: "map (\<lambda>r. cell_at r ''high_confidence'') (rows d3) = [Flag False, Flag False] \<and>
         map (\<lambda>r. cell_at r ''brightness_a'') (rows d3) = [NaN, NaN] \<and>
         ''brightness_a'' \<notin> set (columns d3)"
    using inst [of mixed_example] d3 c3 h3 by simp
  have e1: "\<exists>df. process_csv_data str_example ?T NumericDtype modis_example = Inr df \<and>
         map (\<lambda>r. cell_at r ''confidence'') (rows modis_example) = [Num 85, Num 50, Num 70, Num 69] \<and>
         map (\<lambda>r. cell_at r ''high_confidence'') (rows df) =
           [Flag True, Flag False, Flag True, Flag False] \<and>
         map (\<lambda>r. cell_at r ''brightness_a'') (rows df) = [Num 300, Num 300, Num 300, Num 300] \<and>
         map (\<lambda>r. cell_at r ''brightness_b'') (rows df) = [Num 290, Num 290, Num 290, Num 290] \<and>
         ''brightness'' \<notin> set (columns df) \<and> ''brightness_a'' \<in> set (columns df)"
    using d1 1 c1(1) by (intro exI [of _ d1]) simp
  have e2: "\<exists>df. process_csv_data str_example ?T StringDtype viirs_example = Inr df \<and>
         map (\<lambda>r. cell_at r ''confidence'') (rows viirs_example) =
           [Str ''high'', Str ''low'', Str ''nominal''] \<and>
         map (\<lambda>r. cell_at r ''high_confidence'') (rows df) = [Flag True, Flag False, Flag True] \<and>
         map (\<lambda>r. cell_at r ''brightness_a'') (rows df) = [Num 330, Num 330, Num 330] \<and>
         map (\<lambda>r. cell_at r ''brightness_b'') (rows df) = [Num 295, Num 295, Num 295] \<and>
         ''bright_ti4'' \<notin> set (columns df) \<and> ''brightness_a'' \<in> set (columns df)"
    using d2 2 c2(1) by (intro exI [of _ d2]) simp
  have e3: "\<exists>df. process_csv_data str_example ?T OtherDtype mixed_example = Inr df \<and>
         map (\<lambda>r. cell_at r ''confidence'') (rows mixed_example) = [Str ''high'', NaN] \<and>
         map (\<lambda>r. cell_at r ''high_confidence'') (rows df) = [Flag False, Flag False] \<and>
         map (\<lambda>r. cell_at r ''brightness_a'') (rows df) = [NaN, NaN] \<and>
         ''brightness_a'' \<notin> set (columns df)"
    using d3 3 c3(1) by (intro exI [of _ d3]) simp
  show ?thesis by (rule conjI [OF e1 conjI [OF e2 e3]])
qed

section \<open>Properties of the geospatial filter\<close>

lemma sequence_option_Some:
  "sequence_option xs = Some ys \<Longrightarrow> xs = map Some ys"
  by (induction xs arbitrary: ys) (auto split: option.splits)

lemma sequence_option_map_Some:
  assumes "sequence_option (map f xs) = Some ys"
  shows "length ys = length xs" and "\<forall>i<length xs. f (xs ! i) = Some (ys ! i)"
proof -
  have eq: "map f xs = map Some ys" using assms by (rule sequence_option_Some)
  then show "length ys = length xs" by (metis length_map)
  show "\<forall>i<length xs. f (xs ! i) = Some (ys ! i)"
  proof (intro allI impI)
    fix i assume "i < length xs"
    then show "f (xs ! i) = Some (ys ! i)"
      using eq by (metis length_map nth_map)
  qed
qed

lemma any_within_Some:
  "any_within w p qs = Some b \<Longrightarrow> b \<longleftrightarrow> (\<exists>q\<in>set qs. w p q = Some True)"
  by (induction qs) (auto split: option.splits bool.splits)

lemma filter_zip_mask:
  assumes "length bs = length xs" "\<forall>i<length xs. bs ! i \<longleftrightarrow> P (xs ! i)"
  shows "map fst (filter snd (zip xs bs)) = filter P xs"
  using assms
proof (induction xs arbitrary: bs)
  case Nil
  then show ?case by simp
next
  case (Cons x xs)
  then obtain b bs' where bs: "bs = b # bs'" by (cases bs) auto
  have b: "b \<longleftrightarrow> P x" using Cons.prems(2) bs by force
  have "\<forall>i<length xs. bs' ! i \<longleftrightarrow> P (xs ! i)"
    using Cons.prems(2) bs by force
  then have "map fst (filter snd (zip xs bs')) = filter P xs"
    using Cons.IH [of bs'] Cons.prems(1) bs by simp
  then show ?case using b bs by simp
qed

lemma mask_rows:
  assumes "sequence_option (map (\<lambda>point. any_within w point polys) (map g rs)) = Some within_area"
  shows "map fst (filter snd (zip rs within_area)) =
         filter (\<lambda>r. \<exists>q\<in>set polys. w (g r) q = Some True) rs"
proof -
  have m: "sequence_option (map (\<lambda>r. any_within w (g r) polys) rs) = Some within_area"
    using assms by (simp add: comp_def)
  note s = sequence_option_map_Some [OF m]
  show ?thesis
  proof (rule filter_zip_mask)
    show "length within_area = length rs" by (rule s(1))
    show "\<forall>i<length rs. within_area ! i = (\<exists>q\<in>set polys. w (g (rs ! i)) q = Some True)"
      using s(2) any_within_Some by blast
  qed
qed

lemma sequence_option_None:
  "sequence_option xs = None \<longleftrightarrow> None \<in> set xs"
  by (induction xs) (auto split: option.splits)

lemma transform_row_keeps:
  "transform_row tr r = Some r' \<Longrightarrow> c \<noteq> ''geometry'' \<Longrightarrow> cell_at r' c = cell_at r c"
  by (auto simp: transform_row_def split: cell.splits option.splits)

lemma transform_row_geometry:
  "transform_row tr r = Some r' \<Longrightarrow>
     (case cell_at r ''geometry'' of
        Geom g \<Rightarrow> (\<exists>g'. tr g = Some g' \<and> cell_at r' ''geometry'' = Geom g')
      | c \<Rightarrow> cell_at r' ''geometry'' = c)"
  by (auto simp: transform_row_def split: cell.splits option.splits)

lemma transform_row_None:
  "transform_row tr r = None \<longleftrightarrow> (\<exists>g. cell_at r ''geometry'' = Geom g \<and> tr g = None)"
  by (auto simp: transform_row_def split: cell.splits option.splits)

lemma to_crs_Some:
  assumes "to_crs transform g target = Some g'"
  shows "\<exists>src dst. crs g = Some src \<and> target = Some dst \<and> crs g' = Some dst \<and>
     columns g' = columns g \<and> length (rows g') = length (rows g) \<and>
     (\<forall>i<length (rows g').
        (\<forall>c. c \<noteq> ''geometry'' \<longrightarrow> cell_at (rows g' ! i) c = cell_at (rows g ! i) c) \<and>
        (case cell_at (rows g ! i) ''geometry'' of
           Geom gm \<Rightarrow> (\<exists>gm'. transform src dst gm = Some gm' \<and>
                          cell_at (rows g' ! i) ''geometry'' = Geom gm')
         | c \<Rightarrow> cell_at (rows g' ! i) ''geometry'' = c))"
proof -
  from assms obtain src dst rs where sd: "crs g = Some src" "target = Some dst"
    and rs: "sequence_option (map (transform_row (transform src dst)) (rows g)) = Some rs"
    and g': "g' = \<lparr>columns = columns g, rows = rs, crs = Some dst\<rparr>"
    by (auto simp: to_crs_def split: option.splits)
  note s = sequence_option_map_Some [OF rs]
  have R: "rows g' = rs" "crs g' = Some dst" "columns g' = columns g" by (simp_all add: g')
  have "\<forall>i<length (rows g').
        (\<forall>c. c \<noteq> ''geometry'' \<longrightarrow> cell_at (rows g' ! i) c = cell_at (rows g ! i) c) \<and>
        (case cell_at (rows g ! i) ''geometry'' of
           Geom gm \<Rightarrow> (\<exists>gm'. transform src dst gm = Some gm' \<and>
                          cell_at (rows g' ! i) ''geometry'' = Geom gm')
         | c \<Rightarrow> cell_at (rows g' ! i) ''geometry'' = c)"
  proof (intro allI impI)
    fix i assume "i < length (rows g')"
    then have t: "transform_row (transform src dst) (rows g ! i) = Some (rows g' ! i)"
      using s R by simp
    show "(\<forall>c. c \<noteq> ''geometry'' \<longrightarrow> cell_at (rows g' ! i) c = cell_at (rows g ! i) c) \<and>
        (case cell_at (rows g ! i) ''geometry'' of
           Geom gm \<Rightarrow> (\<exists>gm'. transform src dst gm = Some gm' \<and>
                          cell_at (rows g' ! i) ''geometry'' = Geom gm')
         | c \<Rightarrow> cell_at (rows g' ! i) ''geometry'' = c)"
      using transform_row_keeps [OF t] transform_row_geometry [OF t] by blast
  qed
  moreover have "length (rows g') = length (rows g)" using s(1) R by simp
  ultimately show ?thesis using sd R
    by (rule_tac x = src in exI, rule_tac x = dst in exI) blast
qed

lemma to_crs_None:
  "to_crs transform g target = None \<longleftrightarrow>
     crs g = None \<or> target = None \<or>
     (\<exists>src dst r gm. crs g = Some src \<and> target = Some dst \<and> r \<in> set (rows g) \<and>
        cell_at r ''geometry'' = Geom gm \<and> transform src dst gm = None)"
proof (cases "crs g")
  case None
  then show ?thesis by (simp add: to_crs_def)
next
  case (Some src)
  show ?thesis
  proof (cases target)
    case None
    then show ?thesis using Some by (simp add: to_crs_def)
  next
    case (Some dst)
    have "to_crs transform g target = None \<longleftrightarrow>
        sequence_option (map (transform_row (transform src dst)) (rows g)) = None"
      using \<open>crs g = Some src\<close> Some by (simp add: to_crs_def split: option.splits)
    also have "\<dots> \<longleftrightarrow> (\<exists>r\<in>set (rows g). transform_row (transform src dst) r = None)"
      unfolding sequence_option_None by force
    also have "\<dots> \<longleftrightarrow> (\<exists>r gm. r \<in> set (rows g) \<and>
        cell_at r ''geometry'' = Geom gm \<and> transform src dst gm = None)"
      unfolding transform_row_None by blast
    finally show ?thesis using \<open>crs g = Some src\<close> Some by simp
  qed
qed

text \<open>
  C7: when the filter returns, the rows it tested are the rows of the point dataset
  itself if the two coordinate references are equal, and otherwise those rows with every
  geometry reprojected from the points' reference to the polygons' reference (all other
  cells unchanged); a tested row is kept if and only if the containment test is true for
  the geometry of at least one row of the boundary set; the kept rows stand in their
  original order with their cells, under the columns of the point dataset and in the
  coordinate reference of the boundary set.
\<close>

theorem filter_firms_points_within_country_area_retains:
  "filter_firms_points_within_country_area transform point_within firms_world_gdf country_gdf
     = Inr res \<longrightarrow>
   (\<exists>rs.
      (crs firms_world_gdf = crs country_gdf \<longrightarrow> rs = rows firms_world_gdf) \<and>
      (crs firms_world_gdf \<noteq> crs country_gdf \<longrightarrow>
         (\<exists>src dst. crs firms_world_gdf = Some src \<and> crs country_gdf = Some dst \<and>
            length rs = length (rows firms_world_gdf) \<and>
            (\<forall>i<length rs.
               (\<forall>c. c \<noteq> ''geometry'' \<longrightarrow>
                  cell_at (rs ! i) c = cell_at (rows firms_world_gdf ! i) c) \<and>
               (case cell_at (rows firms_world_gdf ! i) ''geometry'' of
                  Geom g \<Rightarrow> (\<exists>g'. transform src dst g = Some g' \<and>
                               cell_at (rs ! i) ''geometry'' = Geom g')
                | c \<Rightarrow> cell_at (rs ! i) ''geometry'' = c)))) \<and>
      rows res =
        filter (\<lambda>r. \<exists>polygon\<in>set (rows country_gdf).
                  point_within (cell_at r ''geometry'') (cell_at polygon ''geometry'') = Some True)
          rs \<and>
      columns res = columns firms_world_gdf \<and> crs res = crs country_gdf)"
proof
  assume ok: "filter_firms_points_within_country_area transform point_within firms_world_gdf country_gdf = Inr res"
  let ?f = "if crs firms_world_gdf \<noteq> crs country_gdf
              then to_crs transform firms_world_gdf (crs country_gdf)
              else Some firms_world_gdf"
  from ok obtain firms where f: "?f = Some firms"
    unfolding filter_firms_points_within_country_area_def
    by (cases ?f) (auto split: if_splits)
  from ok f obtain within_area where
    w: "sequence_option (map (\<lambda>point. any_within point_within point (geometry_of country_gdf))
          (geometry_of firms)) = Some within_area"
    and res: "res = \<lparr>columns = columns firms,
                      rows = map fst (filter snd (zip (rows firms) within_area)),
                      crs = crs firms\<rparr>"
    unfolding filter_firms_points_within_country_area_def
    by (auto split: if_splits option.splits)
  have "rows res = filter (\<lambda>r. \<exists>q\<in>set (geometry_of country_gdf).
                         point_within (cell_at r ''geometry'') q = Some True) (rows firms)"
    using mask_rows [OF w [unfolded geometry_of_def [of firms]]] by (simp add: res)
  then have r: "rows res = filter (\<lambda>r. \<exists>polygon\<in>set (rows country_gdf).
         point_within (cell_at r ''geometry'') (cell_at polygon ''geometry'') = Some True)
       (rows firms)"
    by (simp add: geometry_of_def)
  have cr: "columns res = columns firms" "crs res = crs firms" by (simp_all add: res)
  show "\<exists>rs.
      (crs firms_world_gdf = crs country_gdf \<longrightarrow> rs = rows firms_world_gdf) \<and>
      (crs firms_world_gdf \<noteq> crs country_gdf \<longrightarrow>
         (\<exists>src dst. crs firms_world_gdf = Some src \<and> crs country_gdf = Some dst \<and>
            length rs = length (rows firms_world_gdf) \<and>
            (\<forall>i<length rs.
               (\<forall>c. c \<noteq> ''geometry'' \<longrightarrow>
                  cell_at (rs ! i) c = cell_at (rows firms_world_gdf ! i) c) \<and>
               (case cell_at (rows firms_world_gdf ! i) ''geometry'' of
                  Geom g \<Rightarrow> (\<exists>g'. transform src dst g = Some g' \<and>
                               cell_at (rs ! i) ''geometry'' = Geom g')
                | c \<Rightarrow> cell_at (rs ! i) ''geometry'' = c)))) \<and>
      rows res =
        filter (\<lambda>r. \<exists>polygon\<in>set (rows country_gdf).
                  point_within (cell_at r ''geometry'') (cell_at polygon ''geometry'') = Some True)
          rs \<and>
      columns res = columns firms_world_gdf \<and> crs res = crs country_gdf"
  proof (cases "crs firms_world_gdf = crs country_gdf")
    case True
    then have "firms = firms_world_gdf" using f by simp
    then show ?thesis using True r cr by (intro exI [of _ "rows firms_world_gdf"]) simp
  next
    case False
    then have t: "to_crs transform firms_world_gdf (crs country_gdf) = Some firms" using f by simp
    from to_crs_Some [OF t] show ?thesis using False r cr
      by (intro exI [of _ "rows firms"]) auto
  qed
qed

text \<open>
  C8: the filter raises its \<open>ValueError\<close> when either dataset has no \<open>geometry\<close> column;
  when both have one and either dataset has no rows or no columns; and when both are
  non-empty, the coordinate references differ and the points cannot be reprojected (one
  of the two references is missing, or the reprojection of some point fails). In each of
  these cases, and so for an empty point dataset or an empty boundary set, the result is
  one of these three errors and never a dataset.
\<close>

theorem filter_firms_points_within_country_area_rejects:
  "(''geometry'' \<notin> set (columns firms_world_gdf) \<or> ''geometry'' \<notin> set (columns country_gdf) \<longrightarrow>
      filter_firms_points_within_country_area transform point_within firms_world_gdf country_gdf
        = Inl NoGeometry) \<and>
   (''geometry'' \<in> set (columns firms_world_gdf) \<and> ''geometry'' \<in> set (columns country_gdf) \<and>
    (rows firms_world_gdf = [] \<or> columns firms_world_gdf = [] \<or>
     rows country_gdf = [] \<or> columns country_gdf = []) \<longrightarrow>
      filter_firms_points_within_country_area transform point_within firms_world_gdf country_gdf
        = Inl EmptyFrame) \<and>
   (''geometry'' \<in> set (columns firms_world_gdf) \<and> ''geometry'' \<in> set (columns country_gdf) \<and>
    rows firms_world_gdf \<noteq> [] \<and> rows country_gdf \<noteq> [] \<and>
    crs firms_world_gdf \<noteq> crs country_gdf \<and>
    (crs firms_world_gdf = None \<or> crs country_gdf = None \<or>
     (\<exists>src dst r g. crs firms_world_gdf = Some src \<and> crs country_gdf = Some dst \<and>
        r \<in> set (rows firms_world_gdf) \<and> cell_at r ''geometry'' = Geom g \<and>
        transform src dst g = None)) \<longrightarrow>
      filter_firms_points_within_country_area transform point_within firms_world_gdf country_gdf
        = Inl CrsTransformError) \<and>
   (''geometry'' \<notin> set (columns firms_world_gdf) \<or> ''geometry'' \<notin> set (columns country_gdf) \<or>
    rows firms_world_gdf = [] \<or> columns firms_world_gdf = [] \<or>
    rows country_gdf = [] \<or> columns country_gdf = [] \<or>
    (crs firms_world_gdf \<noteq> crs country_gdf \<and>
     (crs firms_world_gdf = None \<or> crs country_gdf = None \<or>
      (\<exists>src dst r g. crs firms_world_gdf = Some src \<and> crs country_gdf = Some dst \<and>
         r \<in> set (rows firms_world_gdf) \<and> cell_at r ''geometry'' = Geom g \<and>
         transform src dst g = None))) \<longrightarrow>
      filter_firms_points_within_country_area transform point_within firms_world_gdf country_gdf
        \<in> {Inl NoGeometry, Inl EmptyFrame, Inl CrsTransformError})"
proof -
  have n: "to_crs transform firms_world_gdf (crs country_gdf) = None"
    if "crs firms_world_gdf = None \<or> crs country_gdf = None \<or>
     (\<exists>src dst r g. crs firms_world_gdf = Some src \<and> crs country_gdf = Some dst \<and>
        r \<in> set (rows firms_world_gdf) \<and> cell_at r ''geometry'' = Geom g \<and>
        transform src dst g = None)"
    using that unfolding to_crs_None by blast
  show ?thesis
    unfolding filter_firms_points_within_country_area_def is_empty_def
    using n by auto
qed

lemma to_crs_example:
  "to_crs example_transform firms_example (Some ''EPSG:4326'') =
     Some \<lparr>columns = [''confidence'', ''geometry''],
      rows = [[(''confidence'', Str ''85''), (''geometry'', Geom (Point (Some (3 / 2)) (Some (3 / 2))))],
              [(''confidence'', Str ''90''), (''geometry'', Geom (Point (Some 5) (Some 5)))],
              [(''confidence'', Str ''high''), (''geometry'', Geom (Point (Some (21 / 2)) (Some (21 / 2))))]],
      crs = Some ''EPSG:4326''\<rparr>"
  by code_simp

lemma filter_example_ok:
  "\<exists>res. filter_firms_points_within_country_area example_transform box_within
            firms_example country_example = Inr res"
proof -
  have "case filter_firms_points_within_country_area example_transform box_within
            firms_example country_example of Inl e \<Rightarrow> False | Inr res \<Rightarrow> True"
    by code_simp
  then show ?thesis by (auto split: sum.splits)
qed

theorem filter_firms_points_within_country_area_retains_witness:
  "\<exists>res. filter_firms_points_within_country_area example_transform box_within
            firms_example country_example = Inr res \<and>
         map (\<lambda>r. cell_at r ''confidence'') (rows firms_example) =
           [Str ''85'', Str ''90'', Str ''high''] \<and>
         map (\<lambda>r. cell_at r ''confidence'') (rows res) = [Str ''85'', Str ''high''] \<and>
         map (\<lambda>r. cell_at r ''geometry'') (rows res) =
           [Geom (Point (Some (3 / 2)) (Some (3 / 2))), Geom (Point (Some (21 / 2)) (Some (21 / 2)))] \<and>
         columns res = [''confidence'', ''geometry''] \<and>
         crs res = Some ''EPSG:4326''"
proof -
  let ?P = "\<lambda>r. \<exists>polygon\<in>set (rows country_example).
      box_within (cell_at r ''geometry'') (cell_at polygon ''geometry'') = Some True"
  obtain res where ok: "filter_firms_points_within_country_area example_transform box_within
            firms_example country_example = Inr res"
    using filter_example_ok by blast
  have ne: "crs firms_example \<noteq> crs country_example"
    by (simp add: firms_example_def country_example_def)
  from filter_firms_points_within_country_area_retains
    [of example_transform box_within firms_example country_example res] ok ne
  obtain rs src dst where
    sd: "crs firms_example = Some src" "crs country_example = Some dst"
    and len: "length rs = length (rows firms_example)"
    and cells: "\<forall>i<length rs.
               (\<forall>c. c \<noteq> ''geometry'' \<longrightarrow>
                  cell_at (rs ! i) c = cell_at (rows firms_example ! i) c) \<and>
               (case cell_at (rows firms_example ! i) ''geometry'' of
                  Geom g \<Rightarrow> (\<exists>g'. example_transform src dst g = Some g' \<and>
                               cell_at (rs ! i) ''geometry'' = Geom g')
                | c \<Rightarrow> cell_at (rs ! i) ''geometry'' = c)"
    and r: "rows res = filter ?P rs"
    and k: "columns res = columns firms_example" "crs res = crs country_example"
    by auto
  have src: "src = ''EPSG:3857''" and dst: "dst = ''EPSG:4326''"
    using sd by (simp_all add: firms_example_def country_example_def)
  have "length rs = 3" using len by (simp add: firms_example_def)
  then obtain a b c where rs: "rs = [a, b, c]"
    by (auto simp: length_Suc_conv eval_nat_numeral)
  have a: "cell_at a ''confidence'' = Str ''85''"
    "cell_at a ''geometry'' = Geom (Point (Some (3 / 2)) (Some (3 / 2)))"
    using cells [rule_format, of 0]
    by (auto simp: rs src dst firms_example_def cell_at_def example_transform_def)
  have b: "cell_at b ''confidence'' = Str ''90''"
    "cell_at b ''geometry'' = Geom (Point (Some 5) (Some 5))"
    using cells [rule_format, of 1]
    by (auto simp: rs src dst firms_example_def cell_at_def example_transform_def)
  have c: "cell_at c ''confidence'' = Str ''high''"
    "cell_at c ''geometry'' = Geom (Point (Some (21 / 2)) (Some (21 / 2)))"
    using cells [rule_format, of 2]
    by (auto simp: rs src dst firms_example_def cell_at_def example_transform_def)
  have G: "map (\<lambda>q. cell_at q ''geometry'') (rows country_example) =
      [Geom (Polygon [(1, 1), (2, 1), (2, 2), (1, 2)]),
       Geom (Polygon [(10, 10), (11, 10), (11, 11), (10, 11)])]"
    by code_simp
  have Pa: "\<exists>q\<in>set (map (\<lambda>q. cell_at q ''geometry'') (rows country_example)).
         box_within (cell_at a ''geometry'') q = Some True"
    unfolding G a(2) by (simp add: box_within_def)
  have Pb: "\<not> (\<exists>q\<in>set (map (\<lambda>q. cell_at q ''geometry'') (rows country_example)).
         box_within (cell_at b ''geometry'') q = Some True)"
    unfolding G b(2) by (simp add: box_within_def)
  have Pc: "\<exists>q\<in>set (map (\<lambda>q. cell_at q ''geometry'') (rows country_example)).
         box_within (cell_at c ''geometry'') q = Some True"
    unfolding G c(2) by (simp add: box_within_def)
  have P: "?P a" "\<not> ?P b" "?P c"
    using Pa Pb Pc by auto
  have rr: "rows res = [a, c]" using P by (simp add: r rs)
  have f: "map (\<lambda>r. cell_at r ''confidence'') (rows firms_example) =
           [Str ''85'', Str ''90'', Str ''high'']"
    by (simp add: firms_example_def cell_at_def)
  show ?thesis using ok f rr a c k
    by (intro exI [of _ res]) (simp add: firms_example_def country_example_def)
qed

theorem filter_firms_points_within_country_area_rejects_witness:
  "filter_firms_points_within_country_area example_transform box_within
      \<lparr>columns = [''confidence'', ''geometry''], rows = [], crs = Some ''EPSG:4326''\<rparr>
      country_example = Inl EmptyFrame \<and>
   filter_firms_points_within_country_area example_transform box_within
      firms_example
      \<lparr>columns = [''display_name'', ''geometry''], rows = [], crs = Some ''EPSG:4326''\<rparr>
      = Inl EmptyFrame \<and>
   filter_firms_points_within_country_area example_transform box_within
      \<lparr>columns = [''confidence''], rows = [[(''confidence'', Str ''85'')]], crs = None\<rparr>
      country_example = Inl NoGeometry \<and>
   filter_firms_points_within_country_area example_transform box_within
      country_example firms_example = Inl CrsTransformError"
proof -
  have 1: "filter_firms_points_within_country_area example_transform box_within
      \<lparr>columns = [''confidence'', ''geometry''], rows = [], crs = Some ''EPSG:4326''\<rparr>
      country_example = Inl EmptyFrame"
    using filter_firms_points_within_country_area_rejects
      [of "\<lparr>columns = [''confidence'', ''geometry''], rows = [], crs = Some ''EPSG:4326''\<rparr>"
         country_example example_transform box_within]
    by (simp add: country_example_def)
  have 2: "filter_firms_points_within_country_area example_transform box_within
      firms_example
      \<lparr>columns = [''display_name'', ''geometry''], rows = [], crs = Some ''EPSG:4326''\<rparr>
      = Inl EmptyFrame"
    using filter_firms_points_within_country_area_rejects
      [of firms_example
         "\<lparr>columns = [''display_name'', ''geometry''], rows = [], crs = Some ''EPSG:4326''\<rparr>"
         example_transform box_within]
    by (simp add: firms_example_def)
  have 3: "filter_firms_points_within_country_area example_transform box_within
      \<lparr>columns = [''confidence''], rows = [[(''confidence'', Str ''85'')]], crs = None\<rparr>
      country_example = Inl NoGeometry"
    using filter_firms_points_within_country_area_rejects
      [of "\<lparr>columns = [''confidence''], rows = [[(''confidence'', Str ''85'')]], crs = None\<rparr>"
         country_example example_transform box_within]
    by simp
  have g: "''geometry'' \<in> set (columns country_example)" "''geometry'' \<in> set (columns firms_example)"
    "rows country_example \<noteq> []" "rows firms_example \<noteq> []"
    "crs country_example \<noteq> crs firms_example"
    by (simp_all add: firms_example_def country_example_def)
  have t: "\<exists>src dst r g. crs country_example = Some src \<and> crs firms_example = Some dst \<and>
        r \<in> set (rows country_example) \<and> cell_at r ''geometry'' = Geom g \<and>
        example_transform src dst g = None"
    by (rule exI [of _ "''EPSG:4326''"], rule exI [of _ "''EPSG:3857''"],
        rule exI [of _ "[(''display_name'', Str ''Mainland''),
               (''geometry'', Geom (Polygon [(1, 1), (2, 1), (2, 2), (1, 2)]))]"],
        rule exI [of _ "Polygon [(1, 1), (2, 1), (2, 2), (1, 2)]"])
       (simp add: firms_example_def country_example_def cell_at_def example_transform_def)
  have 4: "filter_firms_points_within_country_area example_transform box_within
      country_example firms_example = Inl CrsTransformError"
    using filter_firms_points_within_country_area_rejects
      [of country_example firms_example example_transform box_within] t g
    by blast
  show ?thesis by (rule conjI [OF 1 conjI [OF 2 conjI [OF 3 4]]])
qed

end
